theory Spec2Isabelle
  imports Complex_Main "HOL-Library.Sublist" "HOL-Library.Log_Nat"
begin

section \<open>JavaScript numbers\<close>

text \<open>
  The script \<open>custom-page-size.js\<close> computes with JavaScript numbers, which are IEEE 754
  binary64 values: NaN, one of the two infinities, or a finite value. A finite value is
  kept as the real number it denotes; the two signed zeros are one value.

  \<open>double x\<close> is the finite binary64 value nearest to the real \<open>x\<close>, ties going to the
  even significand: \<open>binade x\<close> is the exponent \<open>e\<close> with \<open>2^e \<le> |x| < 2^(e+1)\<close>, the spacing
  of the values around \<open>x\<close> is \<open>2^(e - 52)\<close>, and \<open>2^(-1074)\<close> for the subnormal ones.
  \<open>round64\<close> is the rounding of a real result: from \<open>2^1024 - 2^970\<close> on it overflows to
  an infinity. A decimal literal of the script, and the product of two finite numbers,
  denote the rounding of their real value. \<open>Finite\<close> also holds the reals between
  the binary64 values; the operations are defined on them in the same way, so what is
  proved for every finite number is proved for every binary64 value.
\<close>

datatype jsnum = NaN | PosInfinity | NegInfinity | Finite real

definition pow2 :: "int \<Rightarrow> real" where
  "pow2 n = (if 0 \<le> n then 2 ^ nat n else 1 / 2 ^ nat (- n))"

definition binade :: "real \<Rightarrow> int" where
  "binade x =
     (if 1 \<le> \<bar>x\<bar> then bitlen \<lfloor>\<bar>x\<bar>\<rfloor> - 1 else - bitlen (\<lceil>1 / \<bar>x\<bar>\<rceil> - 1))"

definition roundHalfEven :: "real \<Rightarrow> int" where
  "roundHalfEven y =
     (if y - of_int \<lfloor>y\<rfloor> < 1 / 2 then \<lfloor>y\<rfloor>
      else if 1 / 2 < y - of_int \<lfloor>y\<rfloor> then \<lfloor>y\<rfloor> + 1
      else if even \<lfloor>y\<rfloor> then \<lfloor>y\<rfloor> else \<lfloor>y\<rfloor> + 1)"

definition quantum :: "real \<Rightarrow> real" where
  "quantum x = pow2 (max (binade x) (- 1022) - 52)"

definition double :: "real \<Rightarrow> real" where
  "double x = of_int (roundHalfEven (x / quantum x)) * quantum x"

definition round64 :: "real \<Rightarrow> jsnum" where
  "round64 x =
     (if 2 ^ 1024 - 2 ^ 970 \<le> \<bar>x\<bar> then (if 0 < x then PosInfinity else NegInfinity)
      else Finite (double x))"

fun negate :: "jsnum \<Rightarrow> jsnum" where
  "negate NaN = NaN"
| "negate PosInfinity = NegInfinity"
| "negate NegInfinity = PosInfinity"
| "negate (Finite x) = Finite (- x)"

section \<open>JavaScript values\<close>

text \<open>
  What a caller can pass to a server function: nothing (\<open>undefined\<close>), \<open>null\<close>, a
  boolean, a number, a string, or an object or array made of such values. A string is
  the list of its code units, which are taken to be below 256. An object or array is
  kept as the string that its \<open>toString\<close> returns (\<open>[object Object]\<close> for a plain
  object, the elements joined by commas for an array), which is all that the script's
  operators use of it.
\<close>

datatype jsval = Undefined | Null | Bool bool | Num jsnum | Str string | Obj string

text \<open>A finite number.\<close>

abbreviation num :: "real \<Rightarrow> jsval" where
  "num x \<equiv> Num (Finite x)"

text \<open>
  \<open>StringToNumber\<close>: white space and line terminators around the text are dropped; the
  empty text is 0; otherwise the text has to be a whole \<open>StrNumericLiteral\<close>, that is
  \<open>Infinity\<close> or decimal digits with an optional fraction and exponent, with an
  optional sign, or unsigned binary, octal or hexadecimal digits after \<open>0b\<close>, \<open>0o\<close> or
  \<open>0x\<close>; any other text is NaN.
\<close>

definition isStrWhiteSpace :: "char \<Rightarrow> bool" where
  "isStrWhiteSpace c =
     (c \<in> set [CHR 0x09, CHR 0x0A, CHR 0x0B, CHR 0x0C, CHR 0x0D, CHR 0x20, CHR 0xA0])"

definition trimString :: "string \<Rightarrow> string" where
  "trimString s = rev (dropWhile isStrWhiteSpace (rev (dropWhile isStrWhiteSpace s)))"

definition digitOf :: "char \<Rightarrow> nat" where
  "digitOf c =
     (if 48 \<le> (of_char c :: nat) \<and> (of_char c :: nat) \<le> 57 then of_char c - 48
      else if 97 \<le> (of_char c :: nat) \<and> (of_char c :: nat) \<le> 102 then of_char c - 87
      else if 65 \<le> (of_char c :: nat) \<and> (of_char c :: nat) \<le> 70 then of_char c - 55
      else 36)"

definition isDigit :: "nat \<Rightarrow> char \<Rightarrow> bool" where
  "isDigit radix c = (digitOf c < radix)"

definition digitsValue :: "nat \<Rightarrow> string \<Rightarrow> int" where
  "digitsValue radix s = foldl (\<lambda>a c. int radix * a + int (digitOf c)) 0 s"

definition unsignedInteger :: "string \<Rightarrow> int option" where
  "unsignedInteger s =
     (if s \<noteq> [] \<and> list_all (isDigit 10) s then Some (digitsValue 10 s) else None)"

definition signedInteger :: "string \<Rightarrow> int option" where
  "signedInteger s =
     (case s of
        [] \<Rightarrow> None
      | c # r \<Rightarrow>
          if c = CHR ''+'' then unsignedInteger r
          else if c = CHR ''-'' then map_option uminus (unsignedInteger r)
          else unsignedInteger s)"

definition exponentPart :: "string \<Rightarrow> int option" where
  "exponentPart s =
     (case s of
        [] \<Rightarrow> Some 0
      | c # r \<Rightarrow> if c = CHR ''e'' \<or> c = CHR ''E'' then signedInteger r else None)"

definition pow10 :: "int \<Rightarrow> real" where
  "pow10 n = (if 0 \<le> n then 10 ^ nat n else 1 / 10 ^ nat (- n))"

definition unsignedDecimal :: "string \<Rightarrow> jsnum" where
  "unsignedDecimal s =
     (if s = ''Infinity'' then PosInfinity
      else
        let ip = takeWhile (isDigit 10) s;
            r1 = dropWhile (isDigit 10) s;
            dot = (r1 \<noteq> [] \<and> hd r1 = CHR ''.'');
            fp = (if dot then takeWhile (isDigit 10) (tl r1) else []);
            r2 = (if dot then dropWhile (isDigit 10) (tl r1) else r1)
        in if ip = [] \<and> fp = [] then NaN
           else
             (case exponentPart r2 of
                None \<Rightarrow> NaN
              | Some ex \<Rightarrow>
                  round64 ((of_int (digitsValue 10 ip)
                            + of_int (digitsValue 10 fp) / 10 ^ length fp) * pow10 ex)))"

definition nonDecimal :: "nat \<Rightarrow> string \<Rightarrow> jsnum" where
  "nonDecimal radix s =
     (if s \<noteq> [] \<and> list_all (isDigit radix) s then round64 (of_int (digitsValue radix s))
      else NaN)"

definition strNumericLiteral :: "string \<Rightarrow> jsnum" where
  "strNumericLiteral s =
     (if take 2 s = ''0x'' \<or> take 2 s = ''0X'' then nonDecimal 16 (drop 2 s)
      else if take 2 s = ''0o'' \<or> take 2 s = ''0O'' then nonDecimal 8 (drop 2 s)
      else if take 2 s = ''0b'' \<or> take 2 s = ''0B'' then nonDecimal 2 (drop 2 s)
      else
        (case s of
           [] \<Rightarrow> NaN
         | c # r \<Rightarrow>
             if c = CHR ''+'' then unsignedDecimal r
             else if c = CHR ''-'' then negate (unsignedDecimal r)
             else unsignedDecimal s))"

definition stringToNumber :: "string \<Rightarrow> jsnum" where
  "stringToNumber s =
     (if trimString s = [] then Finite 0 else strNumericLiteral (trimString s))"

text \<open>
  \<open>ToNumber\<close>: \<open>undefined\<close> is NaN, \<open>null\<close> and \<open>false\<close> are 0, \<open>true\<close> is 1, a
  string is read as a number, and an object is first turned into its string.
\<close>

fun toNumber :: "jsval \<Rightarrow> jsnum" where
  "toNumber Undefined = NaN"
| "toNumber Null = Finite 0"
| "toNumber (Bool b) = Finite (if b then 1 else 0)"
| "toNumber (Num n) = n"
| "toNumber (Str s) = stringToNumber s"
| "toNumber (Obj s) = stringToNumber s"

text \<open>
  \<open>!v\<close>: the values that are falsy are \<open>undefined\<close>, \<open>null\<close>, \<open>false\<close>, NaN, zero
  and the empty string.
\<close>

fun falsy :: "jsval \<Rightarrow> bool" where
  "falsy Undefined = True"
| "falsy Null = True"
| "falsy (Bool b) = (\<not> b)"
| "falsy (Num NaN) = True"
| "falsy (Num (Finite x)) = (x = 0)"
| "falsy (Num PosInfinity) = False"
| "falsy (Num NegInfinity) = False"
| "falsy (Str s) = (s = [])"
| "falsy (Obj s) = False"

text \<open>
  \<open>a < b\<close> and \<open>a > b\<close> where one side is a number: both sides are converted to
  numbers, and the result is false as soon as one of them is NaN.
\<close>

fun num_lt :: "jsnum \<Rightarrow> jsnum \<Rightarrow> bool" where
  "num_lt NaN b = False"
| "num_lt (Finite x) NaN = False"
| "num_lt (Finite x) (Finite y) = (x < y)"
| "num_lt (Finite x) PosInfinity = True"
| "num_lt (Finite x) NegInfinity = False"
| "num_lt PosInfinity b = False"
| "num_lt NegInfinity NaN = False"
| "num_lt NegInfinity NegInfinity = False"
| "num_lt NegInfinity (Finite y) = True"
| "num_lt NegInfinity PosInfinity = True"

definition js_lt :: "jsval \<Rightarrow> jsval \<Rightarrow> bool" where
  "js_lt a b = num_lt (toNumber a) (toNumber b)"

definition js_gt :: "jsval \<Rightarrow> jsval \<Rightarrow> bool" where
  "js_gt a b = num_lt (toNumber b) (toNumber a)"

text \<open>
  \<open>a * b\<close>: both sides are converted to numbers; the product of two finite numbers is
  the real product rounded.
\<close>

fun inf_times :: "bool \<Rightarrow> jsnum \<Rightarrow> jsnum" where
  "inf_times pos NaN = NaN"
| "inf_times pos (Finite y) =
     (if y = 0 then NaN else if (0 < y) = pos then PosInfinity else NegInfinity)"
| "inf_times pos PosInfinity = (if pos then PosInfinity else NegInfinity)"
| "inf_times pos NegInfinity = (if pos then NegInfinity else PosInfinity)"

fun num_times :: "jsnum \<Rightarrow> jsnum \<Rightarrow> jsnum" where
  "num_times NaN b = NaN"
| "num_times PosInfinity b = inf_times True b"
| "num_times NegInfinity b = inf_times False b"
| "num_times (Finite x) (Finite y) = round64 (x * y)"
| "num_times (Finite x) NaN = NaN"
| "num_times (Finite x) PosInfinity = inf_times True (Finite x)"
| "num_times (Finite x) NegInfinity = inf_times False (Finite x)"

definition js_times :: "jsval \<Rightarrow> jsval \<Rightarrow> jsval" where
  "js_times a b = Num (num_times (toNumber a) (toNumber b))"

section \<open>Constants and tables\<close>

definition POINTS_PER_INCH :: jsval where
  "POINTS_PER_INCH = num 72"

definition COLOR_WHITE :: string where
  "COLOR_WHITE = ''#FFFFFF''"

definition COLOR_CREAM :: string where
  "COLOR_CREAM = ''#F8F3E6''"

text \<open>
  The bounds \<open>4\<close>, \<open>8.5\<close> and \<open>6\<close> and the constant \<open>72\<close> are binary64 values;
  \<open>11.69\<close> is not, and the literal denotes the value nearest to it.
\<close>

definition MIN_WIDTH :: jsval where
  "MIN_WIDTH = num 4"

definition MAX_WIDTH :: jsval where
  "MAX_WIDTH = num 8.5"

definition MIN_HEIGHT :: jsval where
  "MIN_HEIGHT = num 6"

definition MAX_HEIGHT :: jsval where
  "MAX_HEIGHT = num (double 11.69)"

text \<open>
  An entry of a size table: \<open>{ width, height, type }\<close>; the entries of \<open>COMMON_SIZES\<close>
  have no \<open>type\<close>. A table is the object literal of the script, its keys in source order.
  The width and height of an entry are the numbers that its decimal literals denote.
\<close>

record size_entry =
  width :: real
  height :: real
  book_type :: "string option"

definition paperback :: "real \<Rightarrow> real \<Rightarrow> size_entry" where
  "paperback w h =
     \<lparr>width = double w, height = double h, book_type = Some ''paperback''\<rparr>"

definition hardcover :: "real \<Rightarrow> real \<Rightarrow> size_entry" where
  "hardcover w h =
     \<lparr>width = double w, height = double h, book_type = Some ''hardcover''\<rparr>"

definition common :: "real \<Rightarrow> real \<Rightarrow> size_entry" where
  "common w h = \<lparr>width = double w, height = double h, book_type = None\<rparr>"

definition KDP_SIZES :: "(string \<times> size_entry) list" where
  "KDP_SIZES =
    [(''Paperback - 5 x 8'', paperback 5 8),
     (''Paperback - 5.06 x 7.81'', paperback 5.06 7.81),
     (''Paperback - 5.25 x 8'', paperback 5.25 8),
     (''Paperback - 5.5 x 8.5'', paperback 5.5 8.5),
     (''Paperback - 6 x 9'', paperback 6 9),
     (''Paperback - 6.14 x 9.21'', paperback 6.14 9.21),
     (''Paperback - 6.69 x 9.61'', paperback 6.69 9.61),
     (''Paperback - 7 x 10'', paperback 7 10),
     (''Paperback - 7.44 x 9.69'', paperback 7.44 9.69),
     (''Paperback - 7.5 x 9.25'', paperback 7.5 9.25),
     (''Paperback - 8 x 10'', paperback 8 10),
     (''Paperback - 8.25 x 6'', paperback 8.25 6),
     (''Paperback - 8.25 x 8.25'', paperback 8.25 8.25),
     (''Paperback - 8.5 x 8.5'', paperback 8.5 8.5),
     (''Paperback - 8.5 x 11'', paperback 8.5 11),
     (''Hardcover - 5 x 8'', hardcover 5 8),
     (''Hardcover - 5.5 x 8.5'', hardcover 5.5 8.5),
     (''Hardcover - 6 x 9'', hardcover 6 9),
     (''Hardcover - 7 x 10'', hardcover 7 10),
     (''Hardcover - 8 x 10'', hardcover 8 10),
     (''Hardcover - 8.25 x 8.25'', hardcover 8.25 8.25),
     (''Hardcover - 8.5 x 8.5'', hardcover 8.5 8.5),
     (''Hardcover - 8.5 x 11'', hardcover 8.5 11)]"

definition COMMON_SIZES :: "(string \<times> size_entry) list" where
  "COMMON_SIZES =
    [(''Letter'', common 8.5 11),
     (''Legal'', common 8.5 14),
     (''Tabloid'', common 11 17),
     (''A4'', common 8.27 11.69),
     (''A5'', common 5.83 8.27),
     (''A3'', common 11.69 16.54),
     (''Custom'', common 0 0)]"

text \<open>
  \<open>TABLE[name]\<close>. Both tables are plain object literals, so a name that is not a key of
  the literal is looked up in \<open>Object.prototype\<close>: for the property names every object
  inherits the result is a function (for \<open>__proto__\<close>, the prototype object), a truthy
  value without \<open>width\<close> and \<open>height\<close>. For every other name the result is
  \<open>undefined\<close>.
\<close>

definition Object_prototype_keys :: "string list" where
  "Object_prototype_keys =
    [''constructor'', ''__proto__'', ''hasOwnProperty'', ''isPrototypeOf'',
     ''propertyIsEnumerable'', ''toLocaleString'', ''toString'', ''valueOf'',
     ''__defineGetter__'', ''__defineSetter__'', ''__lookupGetter__'',
     ''__lookupSetter__'']"

datatype property = NoProperty | Own size_entry | Inherited

definition getProperty :: "(string \<times> size_entry) list \<Rightarrow> string \<Rightarrow> property" where
  "getProperty table name =
     (case map_of table name of
        Some e \<Rightarrow> Own e
      | None \<Rightarrow> if name \<in> set Object_prototype_keys then Inherited else NoProperty)"

section \<open>The document and the host\<close>

text \<open>
  The record that \<open>saveDocumentSettings\<close> stores under the key \<open>kdpFormatterSettings\<close>.
  The script stores its JSON text; the model keeps the record itself.
\<close>

record settings =
  s_sizeName :: string
  s_width :: jsval
  s_height :: jsval
  s_bookType :: string
  s_paperType :: string
  s_inkType :: string
  s_lastUpdated :: string

text \<open>The calls the script makes on the document body and on the document properties.\<close>

datatype call =
    SetPageWidth jsval
  | SetPageHeight jsval
  | SetBackgroundColor string
  | SetMarginTop jsval
  | SetMarginBottom jsval
  | SetMarginLeft jsval
  | SetMarginRight jsval
  | SetProperty string settings

text \<open>
  What the script can change: the page geometry, background colour and margins of the
  body of the active document, the document properties and the script log. The field
  \<open>calls\<close> records every call made on the host, in order, the refused ones included.
\<close>

record document =
  pageWidth :: jsval
  pageHeight :: jsval
  backgroundColor :: string
  marginTop :: jsval
  marginBottom :: jsval
  marginLeft :: jsval
  marginRight :: jsval
  properties :: "string \<rightharpoonup> settings"
  calls :: "call list"
  logger :: "string list"

text \<open>
  The host is the editor's scripting service, which is not part of the script: \<open>throws c\<close>
  is the text of the exception the host raises on the call \<open>c\<close>, if it raises one, and
  \<open>now\<close> is what \<open>new Date().toISOString()\<close> returns. The getters
  \<open>getActiveDocument\<close>, \<open>getBody\<close> and \<open>getDocumentProperties\<close> are taken to hand
  over the body and the properties of the document without changing anything.
\<close>

record host =
  throws :: "call \<Rightarrow> string option"
  now :: string

text \<open>
  What a \<open>try\<close> block can catch: the TypeError of reading a property of \<open>undefined\<close>,
  and an exception of the host. \<open>toString\<close> is the text \<open>error.toString()\<close>.
\<close>

datatype js_error = TypeError string | HostError string

fun toString :: "js_error \<Rightarrow> string" where
  "toString (TypeError m) = ''TypeError: '' @ m"
| "toString (HostError m) = m"

text \<open>
  A statement runs on the document and either completes or throws; what it changed
  before it threw stays changed. \<open>seq\<close> is the semicolon.
\<close>

type_synonym stmt = "document \<Rightarrow> js_error option \<times> document"

definition seq :: "stmt \<Rightarrow> stmt \<Rightarrow> stmt" where
  "seq s t d = (case s d of (Some e, d') \<Rightarrow> (Some e, d') | (None, d') \<Rightarrow> t d')"

text \<open>
  A call on the host: it is recorded, and then it either throws what the host says, or
  gives the document the value it was called with. The setters of the body and
  \<open>setProperty\<close> of the document properties are such calls.
\<close>

definition invoke :: "host \<Rightarrow> call \<Rightarrow> (document \<Rightarrow> document) \<Rightarrow> stmt" where
  "invoke hst c upd d =
     (let d1 = d\<lparr>calls := calls d @ [c]\<rparr>
      in case throws hst c of
           Some m \<Rightarrow> (Some (HostError m), d1)
         | None \<Rightarrow> (None, upd d1))"

definition setPageWidth :: "host \<Rightarrow> jsval \<Rightarrow> stmt" where
  "setPageWidth hst v = invoke hst (SetPageWidth v) (\<lambda>d. d\<lparr>pageWidth := v\<rparr>)"

definition setPageHeight :: "host \<Rightarrow> jsval \<Rightarrow> stmt" where
  "setPageHeight hst v = invoke hst (SetPageHeight v) (\<lambda>d. d\<lparr>pageHeight := v\<rparr>)"

definition setBackgroundColor :: "host \<Rightarrow> string \<Rightarrow> stmt" where
  "setBackgroundColor hst c = invoke hst (SetBackgroundColor c) (\<lambda>d. d\<lparr>backgroundColor := c\<rparr>)"

definition setMarginTop :: "host \<Rightarrow> jsval \<Rightarrow> stmt" where
  "setMarginTop hst v = invoke hst (SetMarginTop v) (\<lambda>d. d\<lparr>marginTop := v\<rparr>)"

definition setMarginBottom :: "host \<Rightarrow> jsval \<Rightarrow> stmt" where
  "setMarginBottom hst v = invoke hst (SetMarginBottom v) (\<lambda>d. d\<lparr>marginBottom := v\<rparr>)"

definition setMarginLeft :: "host \<Rightarrow> jsval \<Rightarrow> stmt" where
  "setMarginLeft hst v = invoke hst (SetMarginLeft v) (\<lambda>d. d\<lparr>marginLeft := v\<rparr>)"

definition setMarginRight :: "host \<Rightarrow> jsval \<Rightarrow> stmt" where
  "setMarginRight hst v = invoke hst (SetMarginRight v) (\<lambda>d. d\<lparr>marginRight := v\<rparr>)"

definition setProperty :: "host \<Rightarrow> string \<Rightarrow> settings \<Rightarrow> stmt" where
  "setProperty hst k v =
     invoke hst (SetProperty k v) (\<lambda>d. d\<lparr>properties := (properties d)(k \<mapsto> v)\<rparr>)"

section \<open>Helper functions of the script\<close>

text \<open>The expression \<open>x * POINTS_PER_INCH\<close>, which the script writes out at every use.\<close>

definition inchesToPoints :: "jsval \<Rightarrow> jsval" where
  "inchesToPoints x = js_times x POINTS_PER_INCH"

text \<open>
  The margin settings object: \<open>{ type }\<close> for a named variant, or
  \<open>{ top, bottom, inside, outside }\<close>; a property that is absent reads as
  \<open>undefined\<close>.
\<close>

record marginSettings =
  ms_type :: "string option"
  ms_top :: jsval
  ms_bottom :: jsval
  ms_inside :: jsval
  ms_outside :: jsval

text \<open>\<open>if (marginSettings.type)\<close>: a string is truthy unless it is empty.\<close>

fun truthy_string :: "string option \<Rightarrow> bool" where
  "truthy_string None = False"
| "truthy_string (Some s) = (s \<noteq> [])"

definition setMargins :: "host \<Rightarrow> jsval \<Rightarrow> jsval \<Rightarrow> jsval \<Rightarrow> jsval \<Rightarrow> stmt" where
  "setMargins hst t b l r =
     seq (setMarginTop hst t)
       (seq (setMarginBottom hst b)
         (seq (setMarginLeft hst l) (setMarginRight hst r)))"

definition applyMargins :: "host \<Rightarrow> marginSettings \<Rightarrow> stmt" where
  "applyMargins hst ms =
     (if truthy_string (ms_type ms) then
        (if ms_type ms = Some ''default'' then
           setMargins hst (inchesToPoints (num 1)) (inchesToPoints (num 1))
             (inchesToPoints (num 1)) (inchesToPoints (num 1))
         else if ms_type ms = Some ''narrow'' then
           setMargins hst (inchesToPoints (num 0.5)) (inchesToPoints (num 0.5))
             (inchesToPoints (num 0.5)) (inchesToPoints (num 0.5))
         else if ms_type ms = Some ''wide'' then
           setMargins hst (inchesToPoints (num 1.25)) (inchesToPoints (num 1.25))
             (inchesToPoints (num 1.25)) (inchesToPoints (num 1.25))
         else if ms_type ms = Some ''mirrored'' then
           setMargins hst (inchesToPoints (num 1)) (inchesToPoints (num 1))
             (inchesToPoints (num 1.25)) (inchesToPoints (num 0.75))
         else (\<lambda>d. (None, d)))
      else
        setMargins hst (inchesToPoints (ms_top ms)) (inchesToPoints (ms_bottom ms))
          (inchesToPoints (ms_inside ms)) (inchesToPoints (ms_outside ms)))"

definition saveDocumentSettings ::
  "host \<Rightarrow> string \<Rightarrow> jsval \<Rightarrow> jsval \<Rightarrow> string \<Rightarrow> string \<Rightarrow> string \<Rightarrow> stmt" where
  "saveDocumentSettings hst sizeName w h bookType paperType inkType =
     setProperty hst ''kdpFormatterSettings''
       \<lparr>s_sizeName = sizeName, s_width = w, s_height = h, s_bookType = bookType,
        s_paperType = paperType, s_inkType = inkType, s_lastUpdated = now hst\<rparr>"

section \<open>The server functions\<close>

text \<open>
  What a server function returns is a string. The model keeps its parts:
  \<^item> \<open>PageSizeSet name w h bookType paperType inkType\<close> is
    \<open>"Page size set to " + name + " (" + w + "\" x " + h + "\") as " + bookType + " with "
    + paperType + " paper and " + inkType + " ink."\<close>;
  \<^item> \<open>CustomPageSizeSet w h bookType paperType inkType\<close> is the same sentence starting
    with \<open>"Custom page size set to "\<close>, with \<open>w.toFixed(2)\<close> and \<open>h.toFixed(2)\<close>;
  \<^item> \<open>ErrorMessage m\<close> is \<open>"Error: " + m\<close>.
\<close>

datatype message =
    PageSizeSet string jsval jsval string string string
  | CustomPageSizeSet jsnum jsnum string string string
  | ErrorMessage string

text \<open>\<open>sizeName.replace(/^(Paperback|Hardcover) - /, '')\<close>\<close>

definition stripBookPrefix :: "string \<Rightarrow> string" where
  "stripBookPrefix s =
     (if take 12 s = ''Paperback - '' \<or> take 12 s = ''Hardcover - '' then drop 12 s else s)"

text \<open>The message of the TypeError that reading \<open>.width\<close> of \<open>undefined\<close> throws.\<close>

definition undefinedWidthText :: string where
  "undefinedWidthText = ''Cannot read properties of undefined (reading 'width')''"

definition undefinedToFixedText :: string where
  "undefinedToFixedText = ''Cannot read properties of undefined (reading 'toFixed')''"

definition nullToFixedText :: string where
  "nullToFixedText = ''Cannot read properties of null (reading 'toFixed')''"

definition notAFunctionText :: "string \<Rightarrow> string" where
  "notAFunctionText variable = variable @ ''.toFixed is not a function''"

text \<open>
  The first statement of \<open>applyPageSettings\<close>: the width and height of the entry found
  in \<open>KDP_SIZES\<close> if what is found there is truthy, of what is found in
  \<open>COMMON_SIZES\<close> otherwise.
\<close>

fun entryDimensions :: "property \<Rightarrow> js_error + jsval \<times> jsval" where
  "entryDimensions (Own e) = Inr (num (width e), num (height e))"
| "entryDimensions Inherited = Inr (Undefined, Undefined)"
| "entryDimensions NoProperty = Inl (TypeError undefinedWidthText)"

definition lookupSize :: "string \<Rightarrow> js_error + jsval \<times> jsval" where
  "lookupSize sizeName =
     (if getProperty KDP_SIZES sizeName \<noteq> NoProperty
      then entryDimensions (getProperty KDP_SIZES sizeName)
      else entryDimensions (getProperty COMMON_SIZES sizeName))"

definition backgroundOf :: "string \<Rightarrow> string" where
  "backgroundOf paperType = (if paperType = ''cream'' then COLOR_CREAM else COLOR_WHITE)"

text \<open>The \<open>catch\<close> block: log the error and return \<open>"Error: " + error.toString()\<close>.\<close>

definition caught :: "string \<Rightarrow> js_error \<Rightarrow> document \<Rightarrow> message \<times> document" where
  "caught fname e d =
     (ErrorMessage (toString e),
      d\<lparr>logger := logger d @ [''Error in '' @ fname @ '': '' @ toString e]\<rparr>)"

definition applyPageSettings ::
  "host \<Rightarrow> string \<Rightarrow> string \<Rightarrow> string \<Rightarrow> string \<Rightarrow> marginSettings \<Rightarrow> document
     \<Rightarrow> message \<times> document" where
  "applyPageSettings hst sizeName bookType paperType inkType ms d =
     (case lookupSize sizeName of
        Inl e \<Rightarrow> caught ''applyPageSettings'' e d
      | Inr (widthInches, heightInches) \<Rightarrow>
          (case seq (setPageWidth hst (inchesToPoints widthInches))
                 (seq (setPageHeight hst (inchesToPoints heightInches))
                   (seq (setBackgroundColor hst (backgroundOf paperType))
                     (seq (applyMargins hst ms)
                       (saveDocumentSettings hst sizeName widthInches heightInches
                          bookType paperType inkType)))) d of
             (Some e, d') \<Rightarrow> caught ''applyPageSettings'' e d'
           | (None, d') \<Rightarrow>
               (PageSizeSet (stripBookPrefix sizeName) widthInches heightInches
                  bookType paperType inkType, d')))"

text \<open>The server-side validation of \<open>applyCustomPageSize\<close>: the condition of its \<open>if\<close>.\<close>

definition invalidDimensions :: "jsval \<Rightarrow> jsval \<Rightarrow> bool" where
  "invalidDimensions widthInches heightInches =
     (falsy widthInches \<or> falsy heightInches \<or>
      js_lt widthInches MIN_WIDTH \<or> js_gt widthInches MAX_WIDTH \<or>
      js_lt heightInches MIN_HEIGHT \<or> js_gt heightInches MAX_HEIGHT)"

text \<open>
  The text after \<open>"Error: "\<close> in the message of a failed validation; the four bounds are
  the constants, as the template prints them. \<open>CHR 0x22\<close> is the inch mark.
\<close>

definition invalidDimensionsText :: string where
  "invalidDimensionsText =
     ''Invalid dimensions. Width must be between 4'' @ [CHR 0x22] @ '' and 8.5'' @ [CHR 0x22]
     @ '', and height between 6'' @ [CHR 0x22] @ '' and 11.69'' @ [CHR 0x22] @ ''.''"

text \<open>
  \<open>variable.toFixed(2)\<close>: only a number has the method. Reading it from
  \<open>undefined\<close> or \<open>null\<close> throws a TypeError, and so does calling it on any other
  value, where it is \<open>undefined\<close>; the message of the latter names the variable.
\<close>

fun toFixed :: "string \<Rightarrow> jsval \<Rightarrow> js_error + jsnum" where
  "toFixed variable Undefined = Inl (TypeError undefinedToFixedText)"
| "toFixed variable Null = Inl (TypeError nullToFixedText)"
| "toFixed variable (Num n) = Inr n"
| "toFixed variable (Bool b) = Inl (TypeError (notAFunctionText variable))"
| "toFixed variable (Str s) = Inl (TypeError (notAFunctionText variable))"
| "toFixed variable (Obj s) = Inl (TypeError (notAFunctionText variable))"

definition customMessage ::
  "jsval \<Rightarrow> jsval \<Rightarrow> string \<Rightarrow> string \<Rightarrow> string \<Rightarrow> js_error + message" where
  "customMessage w h bookType paperType inkType =
     (case toFixed ''widthInches'' w of
        Inl e \<Rightarrow> Inl e
      | Inr wfix \<Rightarrow>
          (case toFixed ''heightInches'' h of
             Inl e \<Rightarrow> Inl e
           | Inr hfix \<Rightarrow> Inr (CustomPageSizeSet wfix hfix bookType paperType inkType)))"

definition applyCustomPageSize ::
  "host \<Rightarrow> jsval \<Rightarrow> jsval \<Rightarrow> string \<Rightarrow> string \<Rightarrow> string \<Rightarrow> marginSettings \<Rightarrow> document
     \<Rightarrow> message \<times> document" where
  "applyCustomPageSize hst widthInches heightInches bookType paperType inkType ms d =
     (if invalidDimensions widthInches heightInches
      then (ErrorMessage invalidDimensionsText, d)
      else
        (case seq (setPageWidth hst (inchesToPoints widthInches))
               (seq (setPageHeight hst (inchesToPoints heightInches))
                 (seq (setBackgroundColor hst (backgroundOf paperType))
                   (seq (applyMargins hst ms)
                     (saveDocumentSettings hst ''Custom'' widthInches heightInches
                        bookType paperType inkType)))) d of
           (Some e, d') \<Rightarrow> caught ''applyCustomPageSize'' e d'
         | (None, d') \<Rightarrow>
             (case customMessage widthInches heightInches bookType paperType inkType of
                Inl e \<Rightarrow> caught ''applyCustomPageSize'' e d'
              | Inr m \<Rightarrow> (m, d'))))"

section \<open>The dialog\<close>

text \<open>
  The part of the dialog that \<open>updateInkOptions\<close> reads and writes: the values of the
  selects \<open>bookType\<close> and \<open>inkType\<close>, and whether the option \<open>standard\<close> is disabled.
\<close>

record dialog =
  bookTypeValue :: string
  inkTypeValue :: string
  standardDisabled :: bool

definition updateInkOptions :: "dialog \<Rightarrow> dialog" where
  "updateInkOptions dlg =
     (if bookTypeValue dlg = ''hardcover'' then
        (if inkTypeValue dlg = ''standard''
         then dlg\<lparr>standardDisabled := True, inkTypeValue := ''premium''\<rparr>
         else dlg\<lparr>standardDisabled := True\<rparr>)
      else dlg\<lparr>standardDisabled := False\<rparr>)"

section \<open>Vocabulary of the properties\<close>

text \<open>
  The bounds as the specification words them: a finite number within an inclusive range.
  The inputs it speaks of are numbers, or missing.
\<close>

fun finiteWithin :: "real \<Rightarrow> real \<Rightarrow> jsval \<Rightarrow> bool" where
  "finiteWithin lo hi (Num (Finite x)) = (lo \<le> x \<and> x \<le> hi)"
| "finiteWithin lo hi v = False"

fun isNumberOrMissing :: "jsval \<Rightarrow> bool" where
  "isNumberOrMissing Undefined = True"
| "isNumberOrMissing (Num n) = True"
| "isNumberOrMissing v = False"

text \<open>A host that refuses no call.\<close>

definition accepting :: "host \<Rightarrow> bool" where
  "accepting hst = (\<forall>c. throws hst c = None)"

text \<open>The calls made on the host between two states of the document.\<close>

definition newCalls :: "document \<Rightarrow> document \<Rightarrow> call list" where
  "newCalls d d' = drop (length (calls d)) (calls d')"

text \<open>What was stored last by \<open>saveDocumentSettings\<close>.\<close>

definition savedSettings :: "document \<Rightarrow> settings option" where
  "savedSettings d = properties d ''kdpFormatterSettings''"

text \<open>
  Concrete inputs for the examples: a host that accepts every call, a host that refuses
  a page width that is not a number, a document with a Letter page and one-inch margins,
  and the margin settings objects of the dialog.
\<close>

definition acceptAll :: host where
  "acceptAll = \<lparr>throws = (\<lambda>c. None), now = ''2025-03-01T00:00:00.000Z''\<rparr>"

definition refuseNaNWidth :: host where
  "refuseNaNWidth =
     \<lparr>throws = (\<lambda>c. if c = SetPageWidth (Num NaN)
                       then Some ''Exception: Invalid argument: width'' else None),
      now = ''2025-03-01T00:00:00.000Z''\<rparr>"

definition letterPage :: document where
  "letterPage =
     \<lparr>pageWidth = num 612, pageHeight = num 792, backgroundColor = ''#FFFFFF'',
      marginTop = num 72, marginBottom = num 72, marginLeft = num 72, marginRight = num 72,
      properties = Map.empty, calls = [], logger = []\<rparr>"

definition namedMargins :: "string \<Rightarrow> marginSettings" where
  "namedMargins t =
     \<lparr>ms_type = Some t, ms_top = Undefined, ms_bottom = Undefined, ms_inside = Undefined,
      ms_outside = Undefined\<rparr>"

definition customMargins :: "real \<Rightarrow> real \<Rightarrow> real \<Rightarrow> real \<Rightarrow> marginSettings" where
  "customMargins t b l r =
     \<lparr>ms_type = None, ms_top = num t, ms_bottom = num b, ms_inside = num l,
      ms_outside = num r\<rparr>"

text \<open>
  The margins, in inches, that a margin selection resolves to: the constants of a named
  variant, the four values of a custom selection, and none for a name that is not known.
  \<open>marginCalls\<close> are the four setter calls with these values converted to points.
\<close>

definition marginInches :: "marginSettings \<Rightarrow> (jsval \<times> jsval \<times> jsval \<times> jsval) option" where
  "marginInches ms =
     (if truthy_string (ms_type ms) then
        (if ms_type ms = Some ''default'' then Some (num 1, num 1, num 1, num 1)
         else if ms_type ms = Some ''narrow'' then Some (num 0.5, num 0.5, num 0.5, num 0.5)
         else if ms_type ms = Some ''wide'' then Some (num 1.25, num 1.25, num 1.25, num 1.25)
         else if ms_type ms = Some ''mirrored'' then Some (num 1, num 1, num 1.25, num 0.75)
         else None)
      else Some (ms_top ms, ms_bottom ms, ms_inside ms, ms_outside ms))"

definition marginCalls :: "marginSettings \<Rightarrow> call list" where
  "marginCalls ms =
     (case marginInches ms of
        None \<Rightarrow> []
      | Some (t, b, l, r) \<Rightarrow>
          [SetMarginTop (inchesToPoints t), SetMarginBottom (inchesToPoints b),
           SetMarginLeft (inchesToPoints l), SetMarginRight (inchesToPoints r)])"

text \<open>
  The statements that both server functions run once the dimensions are known, and the
  two changes they make around \<open>applyMargins\<close> when the host accepts them: the page is
  sized and coloured, and the settings are stored.
\<close>

abbreviation pageStatements ::
  "host \<Rightarrow> string \<Rightarrow> jsval \<Rightarrow> jsval \<Rightarrow> string \<Rightarrow> string \<Rightarrow> string \<Rightarrow> marginSettings
     \<Rightarrow> stmt" where
  "pageStatements hst sizeName w h bookType paperType inkType ms \<equiv>
     seq (setPageWidth hst (inchesToPoints w))
       (seq (setPageHeight hst (inchesToPoints h))
         (seq (setBackgroundColor hst (backgroundOf paperType))
           (seq (applyMargins hst ms)
             (saveDocumentSettings hst sizeName w h bookType paperType inkType))))"

definition sized :: "jsval \<Rightarrow> jsval \<Rightarrow> string \<Rightarrow> document \<Rightarrow> document" where
  "sized w h c d =
     d\<lparr>calls := calls d @ [SetPageWidth w, SetPageHeight h, SetBackgroundColor c],
       pageWidth := w, pageHeight := h, backgroundColor := c\<rparr>"

definition stored :: "settings \<Rightarrow> document \<Rightarrow> document" where
  "stored s d =
     d\<lparr>calls := calls d @ [SetProperty ''kdpFormatterSettings'' s],
       properties := (properties d)(''kdpFormatterSettings'' \<mapsto> s)\<rparr>"

section \<open>Properties\<close>

subsection \<open>Auxiliary facts\<close>

lemmas double_eval = round64_def double_def quantum_def binade_def pow2_def
  roundHalfEven_def bitlen_def compute_floorlog

lemma double_11_69: "double (1169 / 100) = 6580884955495137 / 562949953421312"
  by (simp add: double_eval)

lemma bitlen_8_15:
  assumes "8 \<le> n" and "n \<le> (15::int)"
  shows "bitlen n = 4"
proof -
  from assms consider "n = 8" | "n = 9" | "n = 10" | "n = 11" | "n = 12" | "n = 13"
    | "n = 14" | "n = 15"
    by linarith
  then show ?thesis
    by cases (simp_all add: bitlen_def compute_floorlog)
qed

lemma quantum_8_16:
  assumes "8 \<le> y" and "y < 16"
  shows "quantum y = 1 / 2 ^ 49"
proof -
  have "8 \<le> \<lfloor>y\<rfloor>" and "\<lfloor>y\<rfloor> \<le> 15"
    using assms by (simp_all add: le_floor_iff floor_le_iff)
  then have "bitlen \<lfloor>\<bar>y\<bar>\<rfloor> = 4"
    using assms by (simp add: bitlen_8_15)
  then show ?thesis
    using assms by (simp add: quantum_def binade_def pow2_def)
qed

lemma double_11_69_below: "double (1169 / 100) \<le> 1169 / 100"
  by (simp add: double_eval)

lemma height_bound_binary64:
  assumes "y = double y"
  shows "y \<le> double (1169 / 100) \<longleftrightarrow> y \<le> 1169 / 100"
proof
  assume "y \<le> double (1169 / 100)"
  then show "y \<le> 1169 / 100"
    using double_11_69_below by linarith
next
  assume le: "y \<le> 1169 / 100"
  show "y \<le> double (1169 / 100)"
  proof (rule ccontr)
    assume "\<not> y \<le> double (1169 / 100)"
    then have gt: "6580884955495137 / 562949953421312 < y"
      by (simp add: double_11_69)
    then have r: "8 \<le> y" "y < 16"
      using le by simp_all
    obtain m :: int where m: "y = of_int m / 2 ^ 49"
      using assms quantum_8_16 [OF r] by (auto simp: double_def)
    have p: "(562949953421312::real) = 2 ^ 49"
      by simp
    from gt m have "(6580884955495137::real) < of_int m"
      unfolding p by (simp add: divide_less_cancel)
    then have "6580884955495138 \<le> m"
      by linarith
    then have "(6580884955495138::real) \<le> of_int m"
      by linarith
    then have "6580884955495138 / 2 ^ 49 \<le> y"
      unfolding m by (simp add: divide_le_cancel)
    then show False
      using le by simp
  qed
qed

lemma number_cases:
  assumes "isNumberOrMissing v"
  obtains "v = Undefined" | n where "v = Num n"
  using assms by (cases v) simp_all

lemma invalidDimensions_iff:
  assumes "isNumberOrMissing w" and "isNumberOrMissing h"
  shows "invalidDimensions w h \<longleftrightarrow>
           \<not> (finiteWithin 4 8.5 w \<and> finiteWithin 6 (double 11.69) h)"
proof -
  have lo: "(6::real) \<le> double 11.69"
    by (simp add: double_11_69)
  show ?thesis
  proof (rule number_cases [OF assms(1)])
    assume "w = Undefined"
    then show ?thesis by (simp add: invalidDimensions_def)
  next
    fix a assume wa: "w = Num a"
    show ?thesis
    proof (rule number_cases [OF assms(2)])
      assume "h = Undefined"
      then show ?thesis by (simp add: invalidDimensions_def)
    next
      fix b assume "h = Num b"
      then show ?thesis using wa lo
        by (cases a; cases b)
           (auto simp: invalidDimensions_def js_lt_def js_gt_def MIN_WIDTH_def MAX_WIDTH_def
              MIN_HEIGHT_def MAX_HEIGHT_def)
    qed
  qed
qed

lemma valid_numbers:
  assumes "isNumberOrMissing w" and "isNumberOrMissing h" and "\<not> invalidDimensions w h"
  obtains a b where "w = Num a" and "h = Num b"
proof (rule number_cases [OF assms(1)])
  assume "w = Undefined"
  then show ?thesis using assms(3) by (simp add: invalidDimensions_def)
next
  fix a assume wa: "w = Num a"
  show ?thesis
  proof (rule number_cases [OF assms(2)])
    assume "h = Undefined"
    then show ?thesis using assms(3) by (simp add: invalidDimensions_def)
  next
    fix b assume "h = Num b"
    then show ?thesis using wa that by simp
  qed
qed

lemma inchesToPoints_num: "inchesToPoints (num x) = Num (round64 (x * 72))"
  by (simp add: inchesToPoints_def js_times_def POINTS_PER_INCH_def)

lemma inchesToPoints_Undefined: "inchesToPoints Undefined = Num NaN"
  by (simp add: inchesToPoints_def js_times_def POINTS_PER_INCH_def)

lemma invoke_accepting:
  "accepting hst \<Longrightarrow> invoke hst c upd d = (None, upd (d\<lparr>calls := calls d @ [c]\<rparr>))"
  by (simp add: invoke_def accepting_def)

lemma seq_completes: "s d = (None, d') \<Longrightarrow> seq s t d = t d'"
  by (simp add: seq_def)

lemma seq_throws: "s d = (Some e, d') \<Longrightarrow> seq s t d = (Some e, d')"
  by (simp add: seq_def)

lemmas setter_defs = setPageWidth_def setPageHeight_def setBackgroundColor_def
  setMarginTop_def setMarginBottom_def setMarginLeft_def setMarginRight_def setProperty_def

lemma setMargins_accepting:
  "accepting hst \<Longrightarrow>
   setMargins hst t b l r d =
     (None, d\<lparr>calls := calls d @ [SetMarginTop t, SetMarginBottom b, SetMarginLeft l,
                                  SetMarginRight r],
              marginTop := t, marginBottom := b, marginLeft := l, marginRight := r\<rparr>)"
  by (simp add: setMargins_def setter_defs seq_def invoke_accepting)

lemma applyMargins_accepting: "accepting hst \<Longrightarrow> fst (applyMargins hst ms d) = None"
  by (simp add: applyMargins_def setMargins_accepting)

lemma setMargins_frame:
  "pageWidth (snd (setMargins hst t b l r d)) = pageWidth d \<and>
   pageHeight (snd (setMargins hst t b l r d)) = pageHeight d \<and>
   backgroundColor (snd (setMargins hst t b l r d)) = backgroundColor d \<and>
   properties (snd (setMargins hst t b l r d)) = properties d \<and>
   logger (snd (setMargins hst t b l r d)) = logger d"
  by (auto simp: setMargins_def setter_defs seq_def invoke_def Let_def split: option.splits prod.splits)

lemma applyMargins_frame:
  "pageWidth (snd (applyMargins hst ms d)) = pageWidth d \<and>
   pageHeight (snd (applyMargins hst ms d)) = pageHeight d \<and>
   backgroundColor (snd (applyMargins hst ms d)) = backgroundColor d \<and>
   properties (snd (applyMargins hst ms d)) = properties d \<and>
   logger (snd (applyMargins hst ms d)) = logger d"
  by (simp add: applyMargins_def setMargins_frame)

lemma applyMargins_accepting_pair:
  "accepting hst \<Longrightarrow> applyMargins hst ms d = (None, snd (applyMargins hst ms d))"
  using applyMargins_accepting [of hst ms d] by (simp add: prod_eq_iff)

lemma pageStatements_accepting:
  assumes "accepting hst"
  shows "pageStatements hst sizeName w h bookType paperType inkType ms d =
     (None,
      stored \<lparr>s_sizeName = sizeName, s_width = w, s_height = h, s_bookType = bookType,
              s_paperType = paperType, s_inkType = inkType, s_lastUpdated = now hst\<rparr>
        (snd (applyMargins hst ms
           (sized (inchesToPoints w) (inchesToPoints h) (backgroundOf paperType) d))))"
proof -
  let ?d1 = "sized (inchesToPoints w) (inchesToPoints h) (backgroundOf paperType) d"
  have a: "seq (setPageWidth hst (inchesToPoints w))
       (seq (setPageHeight hst (inchesToPoints h))
         (seq (setBackgroundColor hst (backgroundOf paperType)) t)) d = t ?d1" for t
    using assms by (cases d) (simp add: seq_def setter_defs invoke_accepting sized_def)
  have b: "seq (applyMargins hst ms) t ?d1 = t (snd (applyMargins hst ms ?d1))" for t
    using applyMargins_accepting_pair [OF assms, of ms ?d1] by (rule seq_completes)
  show ?thesis
    unfolding a b using assms
    by (simp add: saveDocumentSettings_def setProperty_def invoke_accepting stored_def)
qed

lemma applyPageSettings_accepting:
  assumes "accepting hst" and "lookupSize sizeName = Inr (w, h)"
  shows "applyPageSettings hst sizeName bookType paperType inkType ms d =
     (PageSizeSet (stripBookPrefix sizeName) w h bookType paperType inkType,
      stored \<lparr>s_sizeName = sizeName, s_width = w, s_height = h, s_bookType = bookType,
              s_paperType = paperType, s_inkType = inkType, s_lastUpdated = now hst\<rparr>
        (snd (applyMargins hst ms
           (sized (inchesToPoints w) (inchesToPoints h) (backgroundOf paperType) d))))"
  by (simp add: applyPageSettings_def assms(2) pageStatements_accepting [OF assms(1)])

lemma customMessage_numbers:
  "customMessage (Num a) (Num b) bookType paperType inkType =
     Inr (CustomPageSizeSet a b bookType paperType inkType)"
  by (simp add: customMessage_def)

lemma applyCustomPageSize_accepting:
  assumes "accepting hst" and "\<not> invalidDimensions (Num a) (Num b)"
  shows "applyCustomPageSize hst (Num a) (Num b) bookType paperType inkType ms d =
     (CustomPageSizeSet a b bookType paperType inkType,
      stored \<lparr>s_sizeName = ''Custom'', s_width = Num a, s_height = Num b,
              s_bookType = bookType, s_paperType = paperType, s_inkType = inkType,
              s_lastUpdated = now hst\<rparr>
        (snd (applyMargins hst ms
           (sized (inchesToPoints (Num a)) (inchesToPoints (Num b))
              (backgroundOf paperType) d))))"
  by (simp add: applyCustomPageSize_def assms(2) pageStatements_accepting [OF assms(1)]
      customMessage_numbers)

lemma lookupSize_KDP:
  "map_of KDP_SIZES name = Some e \<Longrightarrow> lookupSize name = Inr (num (width e), num (height e))"
  by (simp add: lookupSize_def getProperty_def)

lemma stored_fields:
  "savedSettings (stored s d) = Some s" "pageWidth (stored s d) = pageWidth d"
  "pageHeight (stored s d) = pageHeight d" "backgroundColor (stored s d) = backgroundColor d"
  "marginTop (stored s d) = marginTop d" "marginBottom (stored s d) = marginBottom d"
  "marginLeft (stored s d) = marginLeft d" "marginRight (stored s d) = marginRight d"
  "calls (stored s d) = calls d @ [SetProperty ''kdpFormatterSettings'' s]"
  "logger (stored s d) = logger d"
  by (simp_all add: stored_def savedSettings_def)

lemma sized_fields:
  "pageWidth (sized w h c d) = w" "pageHeight (sized w h c d) = h"
  "backgroundColor (sized w h c d) = c" "marginTop (sized w h c d) = marginTop d"
  "marginBottom (sized w h c d) = marginBottom d" "marginLeft (sized w h c d) = marginLeft d"
  "marginRight (sized w h c d) = marginRight d" "properties (sized w h c d) = properties d"
  "calls (sized w h c d) = calls d @ [SetPageWidth w, SetPageHeight h, SetBackgroundColor c]"
  "logger (sized w h c d) = logger d"
  by (simp_all add: sized_def)

lemma caught_keeps:
  "calls (snd (caught f e d)) = calls d" "savedSettings (snd (caught f e d)) = savedSettings d"
  "pageWidth (snd (caught f e d)) = pageWidth d" "pageHeight (snd (caught f e d)) = pageHeight d"
  "backgroundColor (snd (caught f e d)) = backgroundColor d"
  by (simp_all add: caught_def savedSettings_def)

lemma applyCustomPageSize_accepting_document:
  assumes "accepting hst" and "\<not> invalidDimensions w h"
  shows "savedSettings (snd (applyCustomPageSize hst w h bookType paperType inkType ms d)) =
           Some \<lparr>s_sizeName = ''Custom'', s_width = w, s_height = h, s_bookType = bookType,
                 s_paperType = paperType, s_inkType = inkType, s_lastUpdated = now hst\<rparr>"
    and "calls (snd (applyCustomPageSize hst w h bookType paperType inkType ms d)) =
           calls (stored \<lparr>s_sizeName = ''Custom'', s_width = w, s_height = h,
                    s_bookType = bookType, s_paperType = paperType, s_inkType = inkType,
                    s_lastUpdated = now hst\<rparr>
             (snd (applyMargins hst ms
                (sized (inchesToPoints w) (inchesToPoints h) (backgroundOf paperType) d))))"
  by (simp_all add: applyCustomPageSize_def assms(2) pageStatements_accepting [OF assms(1)]
      caught_keeps stored_fields split: sum.splits)

lemma applyMargins_typed:
  shows "ms_type ms = Some ''default'' \<Longrightarrow>
           applyMargins hst ms d = setMargins hst (inchesToPoints (num 1))
             (inchesToPoints (num 1)) (inchesToPoints (num 1)) (inchesToPoints (num 1)) d"
    and "ms_type ms = Some ''narrow'' \<Longrightarrow>
           applyMargins hst ms d = setMargins hst (inchesToPoints (num 0.5))
             (inchesToPoints (num 0.5)) (inchesToPoints (num 0.5)) (inchesToPoints (num 0.5)) d"
    and "ms_type ms = Some ''wide'' \<Longrightarrow>
           applyMargins hst ms d = setMargins hst (inchesToPoints (num 1.25))
             (inchesToPoints (num 1.25)) (inchesToPoints (num 1.25)) (inchesToPoints (num 1.25)) d"
    and "ms_type ms = Some ''mirrored'' \<Longrightarrow>
           applyMargins hst ms d = setMargins hst (inchesToPoints (num 1))
             (inchesToPoints (num 1)) (inchesToPoints (num 1.25)) (inchesToPoints (num 0.75)) d"
  by (simp_all add: applyMargins_def)

lemma namedMargins_type: "ms_type (namedMargins t) = Some t"
  by (simp add: namedMargins_def)

lemma applyMargins_custom:
  "\<not> truthy_string (ms_type ms) \<Longrightarrow>
   applyMargins hst ms d =
     setMargins hst (inchesToPoints (ms_top ms)) (inchesToPoints (ms_bottom ms))
       (inchesToPoints (ms_inside ms)) (inchesToPoints (ms_outside ms)) d"
  by (simp add: applyMargins_def)

lemma setMargins_accepting_fields:
  assumes "accepting hst"
  shows "marginTop (snd (setMargins hst t b l r d)) = t"
    and "marginBottom (snd (setMargins hst t b l r d)) = b"
    and "marginLeft (snd (setMargins hst t b l r d)) = l"
    and "marginRight (snd (setMargins hst t b l r d)) = r"
    and "calls (snd (setMargins hst t b l r d)) =
           calls d @ [SetMarginTop t, SetMarginBottom b, SetMarginLeft l, SetMarginRight r]"
    and "fst (setMargins hst t b l r d) = None"
  by (simp_all add: setMargins_accepting [OF assms])

lemma KDP_6x9: "map_of KDP_SIZES ''Paperback - 6 x 9'' = Some (paperback 6 9)"
  by (simp add: KDP_SIZES_def)

lemma invoke_calls:
  assumes "\<And>x. calls (upd x) = calls x"
  shows "calls (snd (invoke hst c upd d)) = calls d @ [c]"
  by (simp add: invoke_def Let_def assms split: option.splits)

lemma setter_calls:
  "calls (snd (setPageWidth hst v d)) = calls d @ [SetPageWidth v]"
  "calls (snd (setPageHeight hst v d)) = calls d @ [SetPageHeight v]"
  "calls (snd (setBackgroundColor hst c d)) = calls d @ [SetBackgroundColor c]"
  "calls (snd (setMarginTop hst v d)) = calls d @ [SetMarginTop v]"
  "calls (snd (setMarginBottom hst v d)) = calls d @ [SetMarginBottom v]"
  "calls (snd (setMarginLeft hst v d)) = calls d @ [SetMarginLeft v]"
  "calls (snd (setMarginRight hst v d)) = calls d @ [SetMarginRight v]"
  "calls (snd (setProperty hst k s d)) = calls d @ [SetProperty k s]"
  by (simp_all add: setter_defs invoke_calls)

lemma seq_grows:
  assumes "\<And>x. prefix (calls x) (calls (snd (s x)))"
    and "\<And>x. prefix (calls x) (calls (snd (t x)))"
  shows "prefix (calls d) (calls (snd (seq s t d)))"
proof (cases "s d")
  case (Pair r d')
  have sd: "prefix (calls d) (calls d')"
    using assms(1) [of d] Pair by simp
  show ?thesis
  proof (cases r)
    case None
    then have "seq s t d = t d'"
      using Pair by (simp add: seq_def)
    then show ?thesis
      using sd assms(2) [of d'] by (auto intro: prefix_order.trans)
  next
    case (Some e)
    then show ?thesis
      using Pair sd by (simp add: seq_def)
  qed
qed

lemma seq_first_call:
  assumes "\<And>x. calls (snd (s x)) = calls x @ [c]"
    and "\<And>x. prefix (calls x) (calls (snd (t x)))"
  shows "prefix (calls d @ [c]) (calls (snd (seq s t d)))"
proof (cases "s d")
  case (Pair r d')
  have sd: "calls d' = calls d @ [c]"
    using assms(1) [of d] Pair by simp
  show ?thesis
  proof (cases r)
    case None
    then have "seq s t d = t d'"
      using Pair by (simp add: seq_def)
    then show ?thesis
      using sd assms(2) [of d'] by simp
  next
    case (Some e)
    then show ?thesis
      using Pair sd by (simp add: seq_def)
  qed
qed

lemma setMargins_grows: "prefix (calls d) (calls (snd (setMargins hst t b l r d)))"
  unfolding setMargins_def
  by (intro seq_grows) (simp_all add: setter_calls)

lemma applyMargins_grows: "prefix (calls d) (calls (snd (applyMargins hst ms d)))"
  by (simp add: applyMargins_def setMargins_grows)

lemma saveDocumentSettings_grows:
  "prefix (calls d) (calls (snd (saveDocumentSettings hst n w h b p i d)))"
  by (simp add: saveDocumentSettings_def setter_calls)

lemma pageStatements_first_call:
  "prefix (calls d @ [SetPageWidth (inchesToPoints w)])
     (calls (snd (pageStatements hst n w h b p i ms d)))"
  by (intro seq_first_call seq_grows)
     (simp_all add: setter_calls applyMargins_grows saveDocumentSettings_grows)

lemma pageStatements_second_call:
  assumes "throws hst (SetPageWidth (inchesToPoints w)) = None"
  shows "prefix (calls d @ [SetPageWidth (inchesToPoints w), SetPageHeight (inchesToPoints h)])
     (calls (snd (pageStatements hst n w h b p i ms d)))"
proof -
  let ?d1 = "d\<lparr>calls := calls d @ [SetPageWidth (inchesToPoints w)],
                pageWidth := inchesToPoints w\<rparr>"
  have "setPageWidth hst (inchesToPoints w) d = (None, ?d1)"
    using assms by (simp add: setPageWidth_def invoke_def)
  then have "pageStatements hst n w h b p i ms d =
      seq (setPageHeight hst (inchesToPoints h))
         (seq (setBackgroundColor hst (backgroundOf p))
           (seq (applyMargins hst ms) (saveDocumentSettings hst n w h b p i))) ?d1"
    by (rule seq_completes)
  moreover have "prefix (calls ?d1 @ [SetPageHeight (inchesToPoints h)])
     (calls (snd (seq (setPageHeight hst (inchesToPoints h))
         (seq (setBackgroundColor hst (backgroundOf p))
           (seq (applyMargins hst ms) (saveDocumentSettings hst n w h b p i))) ?d1)))"
    by (intro seq_first_call seq_grows)
       (simp_all add: setter_calls applyMargins_grows saveDocumentSettings_grows)
  ultimately show ?thesis by simp
qed

lemma caught_fields:
  "calls (snd (caught f e d)) = calls d" "fst (caught f e d) = ErrorMessage (toString e)"
  "pageWidth (snd (caught f e d)) = pageWidth d" "pageHeight (snd (caught f e d)) = pageHeight d"
  by (simp_all add: caught_def)

lemma applyCustomPageSize_calls:
  assumes "\<not> invalidDimensions w h"
  shows "calls (snd (applyCustomPageSize hst w h b p i ms d)) =
         calls (snd (pageStatements hst ''Custom'' w h b p i ms d))"
  using assms
  by (simp add: applyCustomPageSize_def caught_fields
      split: prod.splits option.splits sum.splits)

lemma applyPageSettings_calls:
  assumes "lookupSize n = Inr (w, h)"
  shows "calls (snd (applyPageSettings hst n b p i ms d)) =
         calls (snd (pageStatements hst n w h b p i ms d))"
  using assms
  by (simp add: applyPageSettings_def caught_fields split: prod.splits option.splits)

lemma newCalls_prefix:
  assumes "prefix (calls d @ cs) (calls d')"
  shows "take (length cs) (newCalls d d') = cs"
proof -
  obtain zs where "calls d' = (calls d @ cs) @ zs"
    using assms by (auto simp: prefix_def)
  then show ?thesis
    by (simp add: newCalls_def)
qed

lemma accepting_acceptAll: "accepting acceptAll"
  by (simp add: accepting_def acceptAll_def)

lemma applyCustomPageSize_invalid:
  "invalidDimensions w h \<Longrightarrow>
   applyCustomPageSize hst w h bookType paperType inkType ms d =
     (ErrorMessage invalidDimensionsText, d)"
  by (simp add: applyCustomPageSize_def)

lemma newCalls_append: "calls d' = calls d @ cs \<Longrightarrow> newCalls d d' = cs"
  by (simp add: newCalls_def)

lemma lookupSize_Letter: "lookupSize ''Letter'' = Inr (num 8.5, num 11)"
  by (simp add: lookupSize_def getProperty_def KDP_SIZES_def COMMON_SIZES_def
      Object_prototype_keys_def common_def double_eval)

lemma now_acceptAll: "now acceptAll = ''2025-03-01T00:00:00.000Z''"
  by (simp add: acceptAll_def)

lemma lookupSize_Custom: "lookupSize ''Custom'' = Inr (num 0, num 0)"
  by (simp add: lookupSize_def getProperty_def KDP_SIZES_def COMMON_SIZES_def
      Object_prototype_keys_def common_def double_eval)

lemma lookupSize_absent:
  assumes "name \<notin> fst ` set KDP_SIZES" and "name \<notin> fst ` set COMMON_SIZES"
    and "name \<notin> set Object_prototype_keys"
  shows "lookupSize name = Inl (TypeError undefinedWidthText)"
proof -
  have "map_of KDP_SIZES name = None" "map_of COMMON_SIZES name = None"
    using assms(1,2) by (simp_all add: map_of_eq_None_iff)
  then show ?thesis
    using assms(3) by (simp add: lookupSize_def getProperty_def)
qed

lemma lookupSize_constructor: "lookupSize ''constructor'' = Inr (Undefined, Undefined)"
  by (simp add: lookupSize_def getProperty_def KDP_SIZES_def Object_prototype_keys_def)

lemma lookupSize_Hardcover_6x9: "lookupSize ''Hardcover - 6 x 9'' = Inr (num 6, num 9)"
  by (simp add: lookupSize_def getProperty_def KDP_SIZES_def hardcover_def double_eval)

subsection \<open>Validation of custom dimensions\<close>

lemma stringToNumber_examples:
  "stringToNumber ''5'' = Finite 5" "stringToNumber ''7'' = Finite 7"
  "stringToNumber ''abc'' = NaN" "stringToNumber ''[object Object]'' = NaN"
  by (simp_all add: stringToNumber_def trimString_def isStrWhiteSpace_def
      strNumericLiteral_def unsignedDecimal_def isDigit_def digitOf_def exponentPart_def
      digitsValue_def pow10_def double_eval)

lemma valid_examples:
  "\<not> invalidDimensions (Str ''5'') (Str ''7'')"
  "\<not> invalidDimensions (Str ''abc'') (Obj ''[object Object]'')"
  by (simp_all add: invalidDimensions_def js_lt_def js_gt_def stringToNumber_examples
      MIN_WIDTH_def MAX_WIDTH_def MIN_HEIGHT_def MAX_HEIGHT_def double_11_69)

text \<open>
  Claim C1, as stated, fails for inputs that are not numbers: the strings \<open>"5"\<close> and
  \<open>"7"\<close> pass the validation, so that all eight calls are made on the host before
  \<open>toFixed\<close> fails, and so do the string \<open>"abc"\<close> and a plain object, for which the
  page width is set to NaN.
\<close>
theorem strings_pass_the_validation:
  "\<not> invalidDimensions (Str ''5'') (Str ''7'') \<and>
   newCalls letterPage
     (snd (applyCustomPageSize acceptAll (Str ''5'') (Str ''7'') ''paperback'' ''white''
             ''black'' (namedMargins ''default'') letterPage)) =
     [SetPageWidth (num 360), SetPageHeight (num 504), SetBackgroundColor ''#FFFFFF'',
      SetMarginTop (num 72), SetMarginBottom (num 72), SetMarginLeft (num 72),
      SetMarginRight (num 72),
      SetProperty ''kdpFormatterSettings''
        \<lparr>s_sizeName = ''Custom'', s_width = Str ''5'', s_height = Str ''7'',
         s_bookType = ''paperback'', s_paperType = ''white'', s_inkType = ''black'',
         s_lastUpdated = ''2025-03-01T00:00:00.000Z''\<rparr>] \<and>
   fst (applyCustomPageSize acceptAll (Str ''5'') (Str ''7'') ''paperback'' ''white''
          ''black'' (namedMargins ''default'') letterPage) =
     ErrorMessage ''TypeError: widthInches.toFixed is not a function'' \<and>
   \<not> invalidDimensions (Str ''abc'') (Obj ''[object Object]'') \<and>
   take 1 (newCalls letterPage
     (snd (applyCustomPageSize acceptAll (Str ''abc'') (Obj ''[object Object]'')
             ''paperback'' ''white'' ''black'' (namedMargins ''default'') letterPage))) =
     [SetPageWidth (Num NaN)]"
proof (intro conjI)
  show "\<not> invalidDimensions (Str ''5'') (Str ''7'')"
    and "\<not> invalidDimensions (Str ''abc'') (Obj ''[object Object]'')"
    by (rule valid_examples)+
  have p: "inchesToPoints (Str ''5'') = num 360" "inchesToPoints (Str ''7'') = num 504"
    "inchesToPoints (Str ''abc'') = Num NaN" "inchesToPoints (num 1) = num 72"
    by (simp_all add: inchesToPoints_def js_times_def POINTS_PER_INCH_def stringToNumber_examples
        double_eval)
  show "newCalls letterPage
     (snd (applyCustomPageSize acceptAll (Str ''5'') (Str ''7'') ''paperback'' ''white''
             ''black'' (namedMargins ''default'') letterPage)) =
     [SetPageWidth (num 360), SetPageHeight (num 504), SetBackgroundColor ''#FFFFFF'',
      SetMarginTop (num 72), SetMarginBottom (num 72), SetMarginLeft (num 72),
      SetMarginRight (num 72),
      SetProperty ''kdpFormatterSettings''
        \<lparr>s_sizeName = ''Custom'', s_width = Str ''5'', s_height = Str ''7'',
         s_bookType = ''paperback'', s_paperType = ''white'', s_inkType = ''black'',
         s_lastUpdated = ''2025-03-01T00:00:00.000Z''\<rparr>]"
    by (intro newCalls_append)
       (simp add: applyCustomPageSize_accepting_document [OF accepting_acceptAll
            valid_examples(1)] stored_fields applyMargins_typed namedMargins_type
          setMargins_accepting_fields [OF accepting_acceptAll] sized_fields p
          backgroundOf_def COLOR_WHITE_def now_acceptAll)
  show "fst (applyCustomPageSize acceptAll (Str ''5'') (Str ''7'') ''paperback'' ''white''
          ''black'' (namedMargins ''default'') letterPage) =
     ErrorMessage ''TypeError: widthInches.toFixed is not a function''"
    by (simp add: applyCustomPageSize_def valid_examples
        pageStatements_accepting [OF accepting_acceptAll] customMessage_def caught_def
        notAFunctionText_def)
  have "prefix (calls letterPage @ [SetPageWidth (inchesToPoints (Str ''abc''))])
          (calls (snd (applyCustomPageSize acceptAll (Str ''abc'') (Obj ''[object Object]'')
             ''paperback'' ''white'' ''black'' (namedMargins ''default'') letterPage)))"
    using pageStatements_first_call
    by (simp add: applyCustomPageSize_calls [OF valid_examples(2)])
  from newCalls_prefix [OF this]
  show "take 1 (newCalls letterPage
     (snd (applyCustomPageSize acceptAll (Str ''abc'') (Obj ''[object Object]'')
             ''paperback'' ''white'' ''black'' (namedMargins ''default'') letterPage))) =
     [SetPageWidth (Num NaN)]"
    by (simp add: p)
qed

text \<open>
  Claim C1, amended. For inputs that are numbers, or missing, \<open>applyCustomPageSize\<close>
  returns its validation message and leaves the document as it was exactly when the
  width is not a finite number in \<open>[4, 8.5]\<close> or the height is not a finite number in
  \<open>[6, 11.69]\<close>: the upper bound is the number that the literal \<open>11.69\<close> denotes,
  and a binary64 value is below it exactly when it is below the real 11.69. Otherwise it goes
  on to apply the page size: its first call on any host is \<open>setPageWidth\<close> with the
  width in points, and on a host that accepts its calls the page gets the width and
  height in points and the paper colour, the settings are stored, and the success message
  is returned. Both bounds of both ranges are accepted.
\<close>
theorem custom_validation_of_numbers:
  assumes "isNumberOrMissing w" and "isNumberOrMissing h"
  shows "(applyCustomPageSize hst w h bookType paperType inkType ms d =
            (ErrorMessage invalidDimensionsText, d)
          \<longleftrightarrow> \<not> (finiteWithin 4 8.5 w \<and> finiteWithin 6 (double 11.69) h)) \<and>
         (finiteWithin 4 8.5 w \<and> finiteWithin 6 (double 11.69) h \<longrightarrow>
            take 1 (newCalls d
                      (snd (applyCustomPageSize hst w h bookType paperType inkType ms d)))
              = [SetPageWidth (inchesToPoints w)] \<and>
            (accepting hst \<longrightarrow>
               fst (applyCustomPageSize hst w h bookType paperType inkType ms d) =
                 CustomPageSizeSet (toNumber w) (toNumber h) bookType paperType inkType \<and>
               pageWidth (snd (applyCustomPageSize hst w h bookType paperType inkType ms d)) =
                 inchesToPoints w \<and>
               pageHeight (snd (applyCustomPageSize hst w h bookType paperType inkType ms d)) =
                 inchesToPoints h \<and>
               backgroundColor
                 (snd (applyCustomPageSize hst w h bookType paperType inkType ms d)) =
                 backgroundOf paperType \<and>
               savedSettings
                 (snd (applyCustomPageSize hst w h bookType paperType inkType ms d)) =
                 Some \<lparr>s_sizeName = ''Custom'', s_width = w, s_height = h,
                       s_bookType = bookType, s_paperType = paperType, s_inkType = inkType,
                       s_lastUpdated = now hst\<rparr>)) \<and>
         (h = num y \<and> y = double y \<longrightarrow>
            (finiteWithin 6 (double 11.69) h \<longleftrightarrow> finiteWithin 6 11.69 h))"
proof -
  have bound: "finiteWithin 6 (double 11.69) h \<longleftrightarrow> finiteWithin 6 11.69 h"
    if hy: "h = num y \<and> y = double y"
  proof -
    from hy have h: "h = num y" and y: "y = double y"
      by blast+
    show ?thesis
      using height_bound_binary64 [OF y] by (simp add: h)
  qed
  have main: "(applyCustomPageSize hst w h bookType paperType inkType ms d =
            (ErrorMessage invalidDimensionsText, d)
          \<longleftrightarrow> \<not> (finiteWithin 4 8.5 w \<and> finiteWithin 6 (double 11.69) h)) \<and>
         (finiteWithin 4 8.5 w \<and> finiteWithin 6 (double 11.69) h \<longrightarrow>
            take 1 (newCalls d
                      (snd (applyCustomPageSize hst w h bookType paperType inkType ms d)))
              = [SetPageWidth (inchesToPoints w)] \<and>
            (accepting hst \<longrightarrow>
               fst (applyCustomPageSize hst w h bookType paperType inkType ms d) =
                 CustomPageSizeSet (toNumber w) (toNumber h) bookType paperType inkType \<and>
               pageWidth (snd (applyCustomPageSize hst w h bookType paperType inkType ms d)) =
                 inchesToPoints w \<and>
               pageHeight (snd (applyCustomPageSize hst w h bookType paperType inkType ms d)) =
                 inchesToPoints h \<and>
               backgroundColor
                 (snd (applyCustomPageSize hst w h bookType paperType inkType ms d)) =
                 backgroundOf paperType \<and>
               savedSettings
                 (snd (applyCustomPageSize hst w h bookType paperType inkType ms d)) =
                 Some \<lparr>s_sizeName = ''Custom'', s_width = w, s_height = h,
                       s_bookType = bookType, s_paperType = paperType, s_inkType = inkType,
                       s_lastUpdated = now hst\<rparr>))"
  proof (cases "invalidDimensions w h")
  case True
  then show ?thesis
    using invalidDimensions_iff [OF assms] by (auto simp: applyCustomPageSize_def)
next
  case False
  then obtain a b where ab: "w = Num a" "h = Num b"
    using assms by (rule_tac valid_numbers [of w h]) auto
  have p: "prefix (calls d @ [SetPageWidth (inchesToPoints w)])
          (calls (snd (applyCustomPageSize hst w h bookType paperType inkType ms d)))"
    using pageStatements_first_call by (simp add: applyCustomPageSize_calls [OF False])
  then have "calls (snd (applyCustomPageSize hst w h bookType paperType inkType ms d)) \<noteq> calls d"
    by (auto simp: prefix_def)
  then have "snd (applyCustomPageSize hst w h bookType paperType inkType ms d) \<noteq> d"
    by auto
  then have ne: "applyCustomPageSize hst w h bookType paperType inkType ms d \<noteq>
          (ErrorMessage invalidDimensionsText, d)"
    by (auto simp: prod_eq_iff)
  have first: "take 1 (newCalls d
        (snd (applyCustomPageSize hst w h bookType paperType inkType ms d)))
      = [SetPageWidth (inchesToPoints w)]"
    using newCalls_prefix [OF p] by simp
  have run: "fst (applyCustomPageSize hst w h bookType paperType inkType ms d) =
                 CustomPageSizeSet (toNumber w) (toNumber h) bookType paperType inkType \<and>
               pageWidth (snd (applyCustomPageSize hst w h bookType paperType inkType ms d)) =
                 inchesToPoints w \<and>
               pageHeight (snd (applyCustomPageSize hst w h bookType paperType inkType ms d)) =
                 inchesToPoints h \<and>
               backgroundColor
                 (snd (applyCustomPageSize hst w h bookType paperType inkType ms d)) =
                 backgroundOf paperType \<and>
               savedSettings
                 (snd (applyCustomPageSize hst w h bookType paperType inkType ms d)) =
                 Some \<lparr>s_sizeName = ''Custom'', s_width = w, s_height = h,
                       s_bookType = bookType, s_paperType = paperType, s_inkType = inkType,
                       s_lastUpdated = now hst\<rparr>"
    if "accepting hst"
    using False
    by (simp add: ab applyCustomPageSize_accepting [OF that] stored_fields
        applyMargins_frame sized_fields)
  show ?thesis
    using False invalidDimensions_iff [OF assms] ne first run by simp
  qed
  show ?thesis
    using main bound by blast
qed

theorem custom_validation_examples:
  "applyCustomPageSize acceptAll (num (double 3.9)) (num 7) ''paperback'' ''white'' ''black''
      (namedMargins ''default'') letterPage = (ErrorMessage invalidDimensionsText, letterPage) \<and>
   applyCustomPageSize acceptAll (num (double 8.6)) (num 7) ''paperback'' ''white'' ''black''
      (namedMargins ''default'') letterPage = (ErrorMessage invalidDimensionsText, letterPage) \<and>
   applyCustomPageSize acceptAll (num 5) (num (double 5.99)) ''paperback'' ''white'' ''black''
      (namedMargins ''default'') letterPage = (ErrorMessage invalidDimensionsText, letterPage) \<and>
   applyCustomPageSize acceptAll (num 5) (num (double 11.7)) ''paperback'' ''white'' ''black''
      (namedMargins ''default'') letterPage = (ErrorMessage invalidDimensionsText, letterPage) \<and>
   applyCustomPageSize acceptAll (Num NaN) (num 7) ''paperback'' ''white'' ''black''
      (namedMargins ''default'') letterPage = (ErrorMessage invalidDimensionsText, letterPage) \<and>
   applyCustomPageSize acceptAll (num 5) (Num PosInfinity) ''paperback'' ''white'' ''black''
      (namedMargins ''default'') letterPage = (ErrorMessage invalidDimensionsText, letterPage) \<and>
   applyCustomPageSize acceptAll Undefined (num 7) ''paperback'' ''white'' ''black''
      (namedMargins ''default'') letterPage = (ErrorMessage invalidDimensionsText, letterPage) \<and>
   fst (applyCustomPageSize acceptAll (num 4.0) (num 7) ''paperback'' ''white'' ''black''
          (namedMargins ''default'') letterPage) =
     CustomPageSizeSet (Finite 4) (Finite 7) ''paperback'' ''white'' ''black'' \<and>
   pageWidth (snd (applyCustomPageSize acceptAll (num 4.0) (num 7) ''paperback'' ''white''
                     ''black'' (namedMargins ''default'') letterPage)) = num 288 \<and>
   fst (applyCustomPageSize acceptAll (num 8.5) (num 7) ''paperback'' ''white'' ''black''
          (namedMargins ''default'') letterPage) =
     CustomPageSizeSet (Finite 8.5) (Finite 7) ''paperback'' ''white'' ''black'' \<and>
   pageWidth (snd (applyCustomPageSize acceptAll (num 8.5) (num 7) ''paperback'' ''white''
                     ''black'' (namedMargins ''default'') letterPage)) = num 612 \<and>
   fst (applyCustomPageSize acceptAll (num 5) (num 6.0) ''paperback'' ''white'' ''black''
          (namedMargins ''default'') letterPage) =
     CustomPageSizeSet (Finite 5) (Finite 6) ''paperback'' ''white'' ''black'' \<and>
   pageHeight (snd (applyCustomPageSize acceptAll (num 5) (num 6.0) ''paperback'' ''white''
                      ''black'' (namedMargins ''default'') letterPage)) = num 432 \<and>
   fst (applyCustomPageSize acceptAll (num 5) (num (double 11.69)) ''paperback'' ''white''
          ''black'' (namedMargins ''default'') letterPage) =
     CustomPageSizeSet (Finite 5) (Finite (double 11.69)) ''paperback'' ''white'' ''black'' \<and>
   pageHeight (snd (applyCustomPageSize acceptAll (num 5) (num (double 11.69)) ''paperback''
                      ''white'' ''black'' (namedMargins ''default'') letterPage)) =
     num (double 841.68) \<and>
   double (double 11.69) = double 11.69 \<and>
   finiteWithin 6 11.69 (num (double 11.69)) \<and> \<not> finiteWithin 6 11.69 (num (double 11.7))"
  using custom_validation_of_numbers [where w = "num (double 3.9)" and h = "num 7"
      and hst = acceptAll and bookType = "''paperback''" and paperType = "''white''"
      and inkType = "''black''" and ms = "namedMargins ''default''" and d = letterPage
      and y = 0]
    custom_validation_of_numbers [where w = "num (double 8.6)" and h = "num 7"
      and hst = acceptAll and bookType = "''paperback''" and paperType = "''white''"
      and inkType = "''black''" and ms = "namedMargins ''default''" and d = letterPage
      and y = 0]
    custom_validation_of_numbers [where w = "num 5" and h = "num (double 5.99)"
      and hst = acceptAll and bookType = "''paperback''" and paperType = "''white''"
      and inkType = "''black''" and ms = "namedMargins ''default''" and d = letterPage
      and y = 0]
    custom_validation_of_numbers [where w = "num 5" and h = "num (double 11.7)"
      and hst = acceptAll and bookType = "''paperback''" and paperType = "''white''"
      and inkType = "''black''" and ms = "namedMargins ''default''" and d = letterPage
      and y = 0]
    custom_validation_of_numbers [where w = "Num NaN" and h = "num 7"
      and hst = acceptAll and bookType = "''paperback''" and paperType = "''white''"
      and inkType = "''black''" and ms = "namedMargins ''default''" and d = letterPage
      and y = 0]
    custom_validation_of_numbers [where w = "num 5" and h = "Num PosInfinity"
      and hst = acceptAll and bookType = "''paperback''" and paperType = "''white''"
      and inkType = "''black''" and ms = "namedMargins ''default''" and d = letterPage
      and y = 0]
    custom_validation_of_numbers [where w = Undefined and h = "num 7"
      and hst = acceptAll and bookType = "''paperback''" and paperType = "''white''"
      and inkType = "''black''" and ms = "namedMargins ''default''" and d = letterPage
      and y = 0]
    custom_validation_of_numbers [where w = "num 4.0" and h = "num 7"
      and hst = acceptAll and bookType = "''paperback''" and paperType = "''white''"
      and inkType = "''black''" and ms = "namedMargins ''default''" and d = letterPage
      and y = 0]
    custom_validation_of_numbers [where w = "num 8.5" and h = "num 7"
      and hst = acceptAll and bookType = "''paperback''" and paperType = "''white''"
      and inkType = "''black''" and ms = "namedMargins ''default''" and d = letterPage
      and y = 0]
    custom_validation_of_numbers [where w = "num 5" and h = "num 6.0"
      and hst = acceptAll and bookType = "''paperback''" and paperType = "''white''"
      and inkType = "''black''" and ms = "namedMargins ''default''" and d = letterPage
      and y = 0]
    custom_validation_of_numbers [where w = "num 5" and h = "num (double 11.69)"
      and hst = acceptAll and bookType = "''paperback''" and paperType = "''white''"
      and inkType = "''black''" and ms = "namedMargins ''default''" and d = letterPage
      and y = "double 11.69"]
  by (simp add: accepting_acceptAll inchesToPoints_num double_eval)

subsection \<open>Presets use the dimensions of the table\<close>

text \<open>
  Claim C2. For every name of \<open>KDP_SIZES\<close>, \<open>applyPageSettings\<close> on a host that accepts
  its calls sets the page width and height to the table's width and height times the
  points per inch, and stores and reports the table's width and height themselves. For
  \<open>Paperback - 6 x 9\<close> with the \<open>default\<close> margins that is 6 by 9 inches with four
  margins of one inch.
\<close>
theorem preset_uses_table_dimensions:
  assumes "accepting hst"
  shows "(map_of KDP_SIZES name = Some e \<longrightarrow>
           pageWidth (snd (applyPageSettings hst name bookType paperType inkType ms d)) =
             inchesToPoints (num (width e)) \<and>
           pageHeight (snd (applyPageSettings hst name bookType paperType inkType ms d)) =
             inchesToPoints (num (height e)) \<and>
           savedSettings (snd (applyPageSettings hst name bookType paperType inkType ms d)) =
             Some \<lparr>s_sizeName = name, s_width = num (width e), s_height = num (height e),
                   s_bookType = bookType, s_paperType = paperType, s_inkType = inkType,
                   s_lastUpdated = now hst\<rparr> \<and>
           fst (applyPageSettings hst name bookType paperType inkType ms d) =
             PageSizeSet (stripBookPrefix name) (num (width e)) (num (height e))
               bookType paperType inkType) \<and>
         (let d' = snd (applyPageSettings hst ''Paperback - 6 x 9'' bookType paperType inkType
                          (namedMargins ''default'') d)
          in pageWidth d' = inchesToPoints (num 6) \<and> pageHeight d' = inchesToPoints (num 9) \<and>
             marginTop d' = inchesToPoints (num 1) \<and> marginBottom d' = inchesToPoints (num 1) \<and>
             marginLeft d' = inchesToPoints (num 1) \<and> marginRight d' = inchesToPoints (num 1) \<and>
             map_option s_width (savedSettings d') = Some (num 6) \<and>
             map_option s_height (savedSettings d') = Some (num 9))"
proof (intro conjI impI)
  assume e: "map_of KDP_SIZES name = Some e"
  note run = applyPageSettings_accepting [OF assms lookupSize_KDP [OF e]]
  show "pageWidth (snd (applyPageSettings hst name bookType paperType inkType ms d)) =
          inchesToPoints (num (width e))"
    by (simp add: run stored_fields applyMargins_frame sized_fields)
  show "pageHeight (snd (applyPageSettings hst name bookType paperType inkType ms d)) =
          inchesToPoints (num (height e))"
    by (simp add: run stored_fields applyMargins_frame sized_fields)
  show "savedSettings (snd (applyPageSettings hst name bookType paperType inkType ms d)) =
          Some \<lparr>s_sizeName = name, s_width = num (width e), s_height = num (height e),
                s_bookType = bookType, s_paperType = paperType, s_inkType = inkType,
                s_lastUpdated = now hst\<rparr>"
    by (simp add: run stored_fields)
  show "fst (applyPageSettings hst name bookType paperType inkType ms d) =
          PageSizeSet (stripBookPrefix name) (num (width e)) (num (height e))
            bookType paperType inkType"
    by (simp add: run)
next
  have l: "lookupSize ''Paperback - 6 x 9'' = Inr (num 6, num 9)"
    using lookupSize_KDP [OF KDP_6x9] by (simp add: paperback_def double_eval)
  note run = applyPageSettings_accepting [OF assms l]
  show "let d' = snd (applyPageSettings hst ''Paperback - 6 x 9'' bookType paperType inkType
                          (namedMargins ''default'') d)
          in pageWidth d' = inchesToPoints (num 6) \<and> pageHeight d' = inchesToPoints (num 9) \<and>
             marginTop d' = inchesToPoints (num 1) \<and> marginBottom d' = inchesToPoints (num 1) \<and>
             marginLeft d' = inchesToPoints (num 1) \<and> marginRight d' = inchesToPoints (num 1) \<and>
             map_option s_width (savedSettings d') = Some (num 6) \<and>
             map_option s_height (savedSettings d') = Some (num 9)"
    by (simp add: run stored_fields applyMargins_typed namedMargins_type setMargins_frame
        sized_fields setMargins_accepting_fields [OF assms])
qed

theorem preset_6x9_example:
  "accepting acceptAll \<and>
   map_of KDP_SIZES ''Hardcover - 8.25 x 8.25'' = Some (hardcover 8.25 8.25) \<and>
   pageWidth (snd (applyPageSettings acceptAll ''Hardcover - 8.25 x 8.25'' ''hardcover''
      ''cream'' ''premium'' (namedMargins ''narrow'') letterPage)) = num 594 \<and>
   pageHeight (snd (applyPageSettings acceptAll ''Hardcover - 8.25 x 8.25'' ''hardcover''
      ''cream'' ''premium'' (namedMargins ''narrow'') letterPage)) = num 594 \<and>
   (let d' = snd (applyPageSettings acceptAll ''Paperback - 6 x 9'' ''paperback'' ''white''
                    ''black'' (namedMargins ''default'') letterPage)
    in pageWidth d' = num 432 \<and> pageHeight d' = num 648 \<and> marginTop d' = num 72 \<and>
       marginBottom d' = num 72 \<and> marginLeft d' = num 72 \<and> marginRight d' = num 72 \<and>
       map_option s_width (savedSettings d') = Some (num 6) \<and>
       map_option s_height (savedSettings d') = Some (num 9))"
proof -
  have a: "accepting acceptAll"
    by (simp add: accepting_def acceptAll_def)
  have k: "map_of KDP_SIZES ''Hardcover - 8.25 x 8.25'' = Some (hardcover 8.25 8.25)"
    by (simp add: KDP_SIZES_def)
  show ?thesis
    using preset_uses_table_dimensions [OF a, of "''Hardcover - 8.25 x 8.25''"
        "hardcover 8.25 8.25" "''hardcover''" "''cream''" "''premium''"
        "namedMargins ''narrow''" letterPage]
      preset_uses_table_dimensions [OF a, of "''Paperback - 6 x 9''"
        "paperback 6 9" "''paperback''" "''white''" "''black''"
        "namedMargins ''default''" letterPage]
    by (simp add: a k inchesToPoints_num double_eval hardcover_def paperback_def double_eval Let_def)
qed

subsection \<open>The named margin variants\<close>

text \<open>
  Claim C3. On a host that accepts its calls, \<open>applyMargins\<close> completes and sets the
  margins top, bottom, left (inside) and right (outside) to 1, 1, 1, 1 inch for
  \<open>default\<close>, to 0.5 inch each for \<open>narrow\<close>, to 1.25 inch each for \<open>wide\<close>, and to
  1, 1, 1.25, 0.75 inch for \<open>mirrored\<close>.
\<close>
theorem named_margins_constants:
  assumes "accepting hst"
  shows "(ms_type ms = Some ''default'' \<longrightarrow>
            fst (applyMargins hst ms d) = None \<and>
            marginTop (snd (applyMargins hst ms d)) = inchesToPoints (num 1) \<and>
            marginBottom (snd (applyMargins hst ms d)) = inchesToPoints (num 1) \<and>
            marginLeft (snd (applyMargins hst ms d)) = inchesToPoints (num 1) \<and>
            marginRight (snd (applyMargins hst ms d)) = inchesToPoints (num 1)) \<and>
         (ms_type ms = Some ''narrow'' \<longrightarrow>
            fst (applyMargins hst ms d) = None \<and>
            marginTop (snd (applyMargins hst ms d)) = inchesToPoints (num 0.5) \<and>
            marginBottom (snd (applyMargins hst ms d)) = inchesToPoints (num 0.5) \<and>
            marginLeft (snd (applyMargins hst ms d)) = inchesToPoints (num 0.5) \<and>
            marginRight (snd (applyMargins hst ms d)) = inchesToPoints (num 0.5)) \<and>
         (ms_type ms = Some ''wide'' \<longrightarrow>
            fst (applyMargins hst ms d) = None \<and>
            marginTop (snd (applyMargins hst ms d)) = inchesToPoints (num 1.25) \<and>
            marginBottom (snd (applyMargins hst ms d)) = inchesToPoints (num 1.25) \<and>
            marginLeft (snd (applyMargins hst ms d)) = inchesToPoints (num 1.25) \<and>
            marginRight (snd (applyMargins hst ms d)) = inchesToPoints (num 1.25)) \<and>
         (ms_type ms = Some ''mirrored'' \<longrightarrow>
            fst (applyMargins hst ms d) = None \<and>
            marginTop (snd (applyMargins hst ms d)) = inchesToPoints (num 1) \<and>
            marginBottom (snd (applyMargins hst ms d)) = inchesToPoints (num 1) \<and>
            marginLeft (snd (applyMargins hst ms d)) = inchesToPoints (num 1.25) \<and>
            marginRight (snd (applyMargins hst ms d)) = inchesToPoints (num 0.75))"
  by (simp add: applyMargins_typed setMargins_accepting_fields [OF assms])

theorem named_margins_examples:
  "marginTop (snd (applyMargins acceptAll (namedMargins ''default'') letterPage)) = num 72 \<and>
   marginRight (snd (applyMargins acceptAll (namedMargins ''default'') letterPage)) = num 72 \<and>
   marginTop (snd (applyMargins acceptAll (namedMargins ''narrow'') letterPage)) = num 36 \<and>
   marginBottom (snd (applyMargins acceptAll (namedMargins ''narrow'') letterPage)) = num 36 \<and>
   marginLeft (snd (applyMargins acceptAll (namedMargins ''narrow'') letterPage)) = num 36 \<and>
   marginRight (snd (applyMargins acceptAll (namedMargins ''narrow'') letterPage)) = num 36 \<and>
   marginLeft (snd (applyMargins acceptAll (namedMargins ''wide'') letterPage)) = num 90 \<and>
   marginTop (snd (applyMargins acceptAll (namedMargins ''mirrored'') letterPage)) = num 72 \<and>
   marginBottom (snd (applyMargins acceptAll (namedMargins ''mirrored'') letterPage)) = num 72 \<and>
   marginLeft (snd (applyMargins acceptAll (namedMargins ''mirrored'') letterPage)) = num 90 \<and>
   marginRight (snd (applyMargins acceptAll (namedMargins ''mirrored'') letterPage)) = num 54"
  using named_margins_constants [OF accepting_acceptAll, of "namedMargins ''default''" letterPage]
    named_margins_constants [OF accepting_acceptAll, of "namedMargins ''narrow''" letterPage]
    named_margins_constants [OF accepting_acceptAll, of "namedMargins ''wide''" letterPage]
    named_margins_constants [OF accepting_acceptAll, of "namedMargins ''mirrored''" letterPage]
  by (simp add: namedMargins_type inchesToPoints_num double_eval)

subsection \<open>Hardcover and standard ink\<close>

text \<open>
  Claim C4, as stated, fails: \<open>applyPageSettings\<close> called with book type \<open>hardcover\<close>
  and ink type \<open>standard\<close> neither remaps the ink type nor rejects the request; it
  returns the success message and stores a settings record with both values.
\<close>
theorem hardcover_standard_is_stored:
  "fst (applyPageSettings acceptAll ''Hardcover - 6 x 9'' ''hardcover'' ''white'' ''standard''
          (namedMargins ''default'') letterPage)
     = PageSizeSet ''6 x 9'' (num 6) (num 9) ''hardcover'' ''white'' ''standard'' \<and>
   savedSettings
     (snd (applyPageSettings acceptAll ''Hardcover - 6 x 9'' ''hardcover'' ''white''
             ''standard'' (namedMargins ''default'') letterPage))
     = Some \<lparr>s_sizeName = ''Hardcover - 6 x 9'', s_width = num 6, s_height = num 9,
             s_bookType = ''hardcover'', s_paperType = ''white'', s_inkType = ''standard'',
             s_lastUpdated = ''2025-03-01T00:00:00.000Z''\<rparr>"
  by (simp add: applyPageSettings_accepting [OF accepting_acceptAll lookupSize_Hardcover_6x9]
      stored_fields stripBookPrefix_def now_acceptAll)

text \<open>
  Claim C4, amended. The rule that \<open>standard\<close> ink goes with paperbacks only is kept by
  the dialog: after \<open>updateInkOptions\<close> the dialog never holds book type \<open>hardcover\<close>
  together with ink type \<open>standard\<close>, a \<open>standard\<close> selection being remapped to
  \<open>premium\<close> and the option disabled. The server functions \<open>applyPageSettings\<close> and
  \<open>applyCustomPageSize\<close> do not check it: what they store is the book type and the ink
  type they were called with.
\<close>
theorem ink_rule_is_kept_by_the_dialog_only:
  "\<not> (bookTypeValue (updateInkOptions dlg) = ''hardcover'' \<and>
      inkTypeValue (updateInkOptions dlg) = ''standard'') \<and>
   (bookTypeValue dlg = ''hardcover'' \<and> inkTypeValue dlg = ''standard'' \<longrightarrow>
      inkTypeValue (updateInkOptions dlg) = ''premium'' \<and>
      standardDisabled (updateInkOptions dlg)) \<and>
   (accepting hst \<and> lookupSize name = Inr (w, h) \<longrightarrow>
      map_option s_bookType
        (savedSettings (snd (applyPageSettings hst name bookType paperType inkType ms d)))
        = Some bookType \<and>
      map_option s_inkType
        (savedSettings (snd (applyPageSettings hst name bookType paperType inkType ms d)))
        = Some inkType) \<and>
   (accepting hst \<and> \<not> invalidDimensions w h \<longrightarrow>
      map_option s_bookType
        (savedSettings (snd (applyCustomPageSize hst w h bookType paperType inkType ms d)))
        = Some bookType \<and>
      map_option s_inkType
        (savedSettings (snd (applyCustomPageSize hst w h bookType paperType inkType ms d)))
        = Some inkType)"
proof (intro conjI impI)
  show "\<not> (bookTypeValue (updateInkOptions dlg) = ''hardcover'' \<and>
      inkTypeValue (updateInkOptions dlg) = ''standard'')"
    by (simp add: updateInkOptions_def)
next
  assume "bookTypeValue dlg = ''hardcover'' \<and> inkTypeValue dlg = ''standard''"
  then show "inkTypeValue (updateInkOptions dlg) = ''premium''"
    and "standardDisabled (updateInkOptions dlg)"
    by (simp_all add: updateInkOptions_def)
next
  assume a: "accepting hst \<and> lookupSize name = Inr (w, h)"
  then have run: "snd (applyPageSettings hst name bookType paperType inkType ms d) =
      stored \<lparr>s_sizeName = name, s_width = w, s_height = h, s_bookType = bookType,
              s_paperType = paperType, s_inkType = inkType, s_lastUpdated = now hst\<rparr>
        (snd (applyMargins hst ms
           (sized (inchesToPoints w) (inchesToPoints h) (backgroundOf paperType) d)))"
    by (simp add: applyPageSettings_accepting)
  show "map_option s_bookType
        (savedSettings (snd (applyPageSettings hst name bookType paperType inkType ms d)))
        = Some bookType"
    by (simp add: run stored_fields)
  show "map_option s_inkType
        (savedSettings (snd (applyPageSettings hst name bookType paperType inkType ms d)))
        = Some inkType"
    by (simp add: run stored_fields)
next
  assume a: "accepting hst \<and> \<not> invalidDimensions w h"
  then have run:
    "savedSettings (snd (applyCustomPageSize hst w h bookType paperType inkType ms d)) =
       Some \<lparr>s_sizeName = ''Custom'', s_width = w, s_height = h, s_bookType = bookType,
             s_paperType = paperType, s_inkType = inkType, s_lastUpdated = now hst\<rparr>"
    by (simp add: applyCustomPageSize_accepting_document)
  show "map_option s_bookType
        (savedSettings (snd (applyCustomPageSize hst w h bookType paperType inkType ms d)))
        = Some bookType"
    by (simp add: run)
  show "map_option s_inkType
        (savedSettings (snd (applyCustomPageSize hst w h bookType paperType inkType ms d)))
        = Some inkType"
    by (simp add: run)
qed

theorem ink_rule_example:
  "updateInkOptions
     \<lparr>bookTypeValue = ''hardcover'', inkTypeValue = ''standard'', standardDisabled = False\<rparr>
     = \<lparr>bookTypeValue = ''hardcover'', inkTypeValue = ''premium'', standardDisabled = True\<rparr> \<and>
   map_option s_inkType
     (savedSettings (snd (applyPageSettings acceptAll ''Hardcover - 6 x 9'' ''hardcover''
        ''white'' ''standard'' (namedMargins ''default'') letterPage))) = Some ''standard'' \<and>
   map_option s_bookType
     (savedSettings (snd (applyCustomPageSize acceptAll (num 6) (num 9) ''hardcover''
        ''white'' ''standard'' (namedMargins ''default'') letterPage))) = Some ''hardcover'' \<and>
   map_option s_inkType
     (savedSettings (snd (applyCustomPageSize acceptAll (num 6) (num 9) ''hardcover''
        ''white'' ''standard'' (namedMargins ''default'') letterPage))) = Some ''standard''"
proof -
  have v: "\<not> invalidDimensions (num 6) (num 9)"
    by (simp add: invalidDimensions_iff double_11_69)
  have u: "updateInkOptions
     \<lparr>bookTypeValue = ''hardcover'', inkTypeValue = ''standard'', standardDisabled = False\<rparr>
     = \<lparr>bookTypeValue = ''hardcover'', inkTypeValue = ''premium'', standardDisabled = True\<rparr>"
    using ink_rule_is_kept_by_the_dialog_only [of
        "\<lparr>bookTypeValue = ''hardcover'', inkTypeValue = ''standard'', standardDisabled = False\<rparr>"
        acceptAll "''Hardcover - 6 x 9''" "num 6" "num 9" "''hardcover''" "''white''"
        "''standard''" "namedMargins ''default''" letterPage]
    by (simp add: updateInkOptions_def)
  show ?thesis
    using ink_rule_is_kept_by_the_dialog_only [of
        "\<lparr>bookTypeValue = ''hardcover'', inkTypeValue = ''standard'', standardDisabled = False\<rparr>"
        acceptAll "''Hardcover - 6 x 9''" "num 6" "num 9" "''hardcover''" "''white''"
        "''standard''" "namedMargins ''default''" letterPage]
      accepting_acceptAll lookupSize_Hardcover_6x9 v u
    by simp
qed

subsection \<open>Names that are in no table\<close>

text \<open>
  Claim C5, as stated, fails: \<open>constructor\<close> is a key of neither table, and yet
  \<open>KDP_SIZES['constructor']\<close> is truthy, so the lookup does not fail. On a host that
  accepts every call the function sets the page to NaN by NaN and returns the success
  message; on a host that refuses a NaN width it returns the host's exception text.
\<close>
theorem inherited_name_is_not_a_lookup_error:
  "''constructor'' \<notin> fst ` set KDP_SIZES \<and> ''constructor'' \<notin> fst ` set COMMON_SIZES \<and>
   fst (applyPageSettings acceptAll ''constructor'' ''paperback'' ''white'' ''black''
          (namedMargins ''default'') letterPage)
     = PageSizeSet ''constructor'' Undefined Undefined ''paperback'' ''white'' ''black'' \<and>
   pageWidth (snd (applyPageSettings acceptAll ''constructor'' ''paperback'' ''white''
                     ''black'' (namedMargins ''default'') letterPage)) = Num NaN \<and>
   pageHeight (snd (applyPageSettings acceptAll ''constructor'' ''paperback'' ''white''
                      ''black'' (namedMargins ''default'') letterPage)) = Num NaN \<and>
   fst (applyPageSettings refuseNaNWidth ''constructor'' ''paperback'' ''white'' ''black''
          (namedMargins ''default'') letterPage)
     = ErrorMessage ''Exception: Invalid argument: width'' \<and>
   calls (snd (applyPageSettings refuseNaNWidth ''constructor'' ''paperback'' ''white''
                 ''black'' (namedMargins ''default'') letterPage))
     = [SetPageWidth (Num NaN)]"
proof (intro conjI)
  show "''constructor'' \<notin> fst ` set KDP_SIZES"
    by (simp add: KDP_SIZES_def)
  show "''constructor'' \<notin> fst ` set COMMON_SIZES"
    by (simp add: COMMON_SIZES_def)
  note run = applyPageSettings_accepting [OF accepting_acceptAll lookupSize_constructor]
  show "fst (applyPageSettings acceptAll ''constructor'' ''paperback'' ''white'' ''black''
          (namedMargins ''default'') letterPage)
     = PageSizeSet ''constructor'' Undefined Undefined ''paperback'' ''white'' ''black''"
    by (simp add: run stripBookPrefix_def)
  show "pageWidth (snd (applyPageSettings acceptAll ''constructor'' ''paperback'' ''white''
                     ''black'' (namedMargins ''default'') letterPage)) = Num NaN"
    by (simp add: run stored_fields applyMargins_frame sized_fields inchesToPoints_Undefined)
  show "pageHeight (snd (applyPageSettings acceptAll ''constructor'' ''paperback'' ''white''
                      ''black'' (namedMargins ''default'') letterPage)) = Num NaN"
    by (simp add: run stored_fields applyMargins_frame sized_fields inchesToPoints_Undefined)
  have t: "setPageWidth refuseNaNWidth (Num NaN) letterPage =
      (Some (HostError ''Exception: Invalid argument: width''),
       letterPage\<lparr>calls := [SetPageWidth (Num NaN)]\<rparr>)"
    by (simp add: setPageWidth_def invoke_def refuseNaNWidth_def letterPage_def)
  have r: "applyPageSettings refuseNaNWidth ''constructor'' ''paperback'' ''white'' ''black''
          (namedMargins ''default'') letterPage =
        caught ''applyPageSettings'' (HostError ''Exception: Invalid argument: width'')
          (letterPage\<lparr>calls := [SetPageWidth (Num NaN)]\<rparr>)"
    by (simp add: applyPageSettings_def lookupSize_constructor inchesToPoints_Undefined
        seq_def t)
  show "fst (applyPageSettings refuseNaNWidth ''constructor'' ''paperback'' ''white'' ''black''
          (namedMargins ''default'') letterPage)
     = ErrorMessage ''Exception: Invalid argument: width''"
    by (simp add: r caught_fields)
  show "calls (snd (applyPageSettings refuseNaNWidth ''constructor'' ''paperback'' ''white''
                 ''black'' (namedMargins ''default'') letterPage))
     = [SetPageWidth (Num NaN)]"
    by (simp add: r caught_fields)
qed

text \<open>
  Claim C5, amended. For every size name that is a key of neither table and not the name
  of a property that the tables inherit from \<open>Object.prototype\<close>, \<open>applyPageSettings\<close>
  makes no call on the host, logs the error, and returns \<open>"Error: "\<close> followed by the
  text of the TypeError that reading \<open>.width\<close> of \<open>undefined\<close> throws, never a success
  message. The script has no error kind of its own for a name that is not found: the
  message comes out of the one \<open>catch\<close> block that formats every exception.
\<close>
theorem absent_name_returns_type_error:
  assumes "name \<notin> fst ` set KDP_SIZES" and "name \<notin> fst ` set COMMON_SIZES"
    and "name \<notin> set Object_prototype_keys"
  shows "fst (applyPageSettings hst name bookType paperType inkType ms d) =
           ErrorMessage (''TypeError: '' @ undefinedWidthText) \<and>
         snd (applyPageSettings hst name bookType paperType inkType ms d) =
           d\<lparr>logger := logger d @
                 [''Error in applyPageSettings: TypeError: '' @ undefinedWidthText]\<rparr> \<and>
         newCalls d (snd (applyPageSettings hst name bookType paperType inkType ms d)) = []"
  by (simp add: applyPageSettings_def lookupSize_absent [OF assms] caught_def newCalls_def)

theorem absent_name_example:
  "''B5'' \<notin> fst ` set KDP_SIZES \<and> ''B5'' \<notin> fst ` set COMMON_SIZES \<and>
   ''B5'' \<notin> set Object_prototype_keys \<and>
   fst (applyPageSettings acceptAll ''B5'' ''paperback'' ''white'' ''black''
          (namedMargins ''default'') letterPage) =
     ErrorMessage ''TypeError: Cannot read properties of undefined (reading 'width')'' \<and>
   newCalls letterPage
     (snd (applyPageSettings acceptAll ''B5'' ''paperback'' ''white'' ''black''
          (namedMargins ''default'') letterPage)) = []"
proof -
  have k: "''B5'' \<notin> fst ` set KDP_SIZES"
    by (simp add: KDP_SIZES_def)
  have c: "''B5'' \<notin> fst ` set COMMON_SIZES"
    by (simp add: COMMON_SIZES_def)
  have p: "''B5'' \<notin> set Object_prototype_keys"
    by (simp add: Object_prototype_keys_def)
  show ?thesis
    using absent_name_returns_type_error [OF k c p, of acceptAll "''paperback''" "''white''"
        "''black''" "namedMargins ''default''" letterPage] k c p
    by (simp add: undefinedWidthText_def newCalls_def)
qed

subsection \<open>The message of a failed validation\<close>

text \<open>
  Claim C6, as stated, fails: a width below the minimum, a width above the maximum, a
  height below the minimum and a height above the maximum all get the same message, so
  the message does not tell which bound was violated.
\<close>
theorem same_message_for_every_violation:
  "fst (applyCustomPageSize acceptAll (num 3.9) (num 7) ''paperback'' ''white'' ''black''
          (namedMargins ''default'') letterPage) = ErrorMessage invalidDimensionsText \<and>
   fst (applyCustomPageSize acceptAll (num 8.6) (num 7) ''paperback'' ''white'' ''black''
          (namedMargins ''default'') letterPage) = ErrorMessage invalidDimensionsText \<and>
   fst (applyCustomPageSize acceptAll (num 5) (num 5.99) ''paperback'' ''white'' ''black''
          (namedMargins ''default'') letterPage) = ErrorMessage invalidDimensionsText \<and>
   fst (applyCustomPageSize acceptAll (num 5) (num 11.7) ''paperback'' ''white'' ''black''
          (namedMargins ''default'') letterPage) = ErrorMessage invalidDimensionsText \<and>
   fst (applyCustomPageSize acceptAll (num 3.9) (num 7) ''paperback'' ''white'' ''black''
          (namedMargins ''default'') letterPage) =
   fst (applyCustomPageSize acceptAll (num 5) (num 11.7) ''paperback'' ''white'' ''black''
          (namedMargins ''default'') letterPage)"
  by (simp add: applyCustomPageSize_invalid invalidDimensions_iff double_11_69)

text \<open>
  Claim C6, amended. Whenever the validation of \<open>applyCustomPageSize\<close> fails (an argument
  missing, not a number, zero, or out of the bounds), the function returns one fixed
  message, which states all four bounds: it is the same for any two failing inputs.
\<close>
theorem validation_error_is_one_fixed_message:
  assumes "invalidDimensions w h" and "invalidDimensions w' h'"
  shows "fst (applyCustomPageSize hst w h bookType paperType inkType ms d) =
           ErrorMessage invalidDimensionsText \<and>
         fst (applyCustomPageSize hst w h bookType paperType inkType ms d) =
           fst (applyCustomPageSize hst' w' h' bookType' paperType' inkType' ms' d')"
  by (simp add: applyCustomPageSize_invalid [OF assms(1)] applyCustomPageSize_invalid [OF assms(2)])

theorem validation_error_example:
  "invalidDimensions (num 3.9) (num 7) \<and> invalidDimensions (Num NaN) (num 12) \<and>
   fst (applyCustomPageSize acceptAll (num 3.9) (num 7) ''paperback'' ''white'' ''black''
          (namedMargins ''default'') letterPage) = ErrorMessage invalidDimensionsText \<and>
   fst (applyCustomPageSize acceptAll (num 3.9) (num 7) ''paperback'' ''white'' ''black''
          (namedMargins ''default'') letterPage) =
   fst (applyCustomPageSize refuseNaNWidth (Num NaN) (num 12) ''hardcover'' ''cream''
          ''premium'' (namedMargins ''wide'') letterPage)"
proof -
  have i: "invalidDimensions (num 3.9) (num 7)" and j: "invalidDimensions (Num NaN) (num 12)"
    by (simp_all add: invalidDimensions_iff)
  show ?thesis
    using validation_error_is_one_fixed_message [OF i j, of acceptAll "''paperback''"
        "''white''" "''black''" "namedMargins ''default''" letterPage refuseNaNWidth
        "''hardcover''" "''cream''" "''premium''" "namedMargins ''wide''" letterPage] i j
    by blast
qed

subsection \<open>Inches to points\<close>

lemma marginCalls_accepting:
  assumes "accepting hst"
  shows "calls (snd (applyMargins hst ms d)) = calls d @ marginCalls ms"
proof (cases "truthy_string (ms_type ms)")
  case False
  then show ?thesis
    by (simp add: applyMargins_custom setMargins_accepting_fields [OF assms] marginCalls_def
        marginInches_def)
next
  case True
  consider "ms_type ms = Some ''default''" | "ms_type ms = Some ''narrow''"
    | "ms_type ms = Some ''wide''" | "ms_type ms = Some ''mirrored''"
    | "ms_type ms \<notin> {Some ''default'', Some ''narrow'', Some ''wide'', Some ''mirrored''}"
    by blast
  then show ?thesis
  proof cases
    case 5
    then have "applyMargins hst ms d = (None, d)"
      using True by (simp add: applyMargins_def)
    then show ?thesis
      using True 5 by (simp add: marginCalls_def marginInches_def)
  qed (simp_all add: applyMargins_typed setMargins_accepting_fields [OF assms] marginCalls_def
        marginInches_def)
qed

text \<open>
  Claim C7. The conversion from inches to points is the multiplication by the one
  constant 72, in the arithmetic of JavaScript numbers: a value that is not a number
  is converted to one first, NaN stays NaN, an infinity stays that infinity, and a
  finite number gives the product rounded. One inch is 72 points and 8.5 inches are
  612 points; 7.81 inches are 562.3199999999999 points, and \<open>1e308\<close> inches overflow.
  On a host that accepts its calls, every length that \<open>applyMargins\<close>,
  \<open>applyPageSettings\<close> and \<open>applyCustomPageSize\<close> hand to a setter is the
  conversion of the resolved value in inches: the page width and height, and the four
  margins of a named variant or of a custom selection.
\<close>
theorem points_conversion:
  "POINTS_PER_INCH = num 72 \<and>
   inchesToPoints v =
     Num (case toNumber v of
            NaN \<Rightarrow> NaN
          | PosInfinity \<Rightarrow> PosInfinity
          | NegInfinity \<Rightarrow> NegInfinity
          | Finite x \<Rightarrow> round64 (x * 72)) \<and>
   inchesToPoints (num 1) = num 72 \<and>
   inchesToPoints (num 8.5) = num 612 \<and>
   inchesToPoints (num (double 7.81)) = num (double 562.3199999999999) \<and>
   inchesToPoints (num (double (10 ^ 308))) = Num PosInfinity \<and>
   (accepting hst \<longrightarrow> newCalls d (snd (applyMargins hst ms d)) = marginCalls ms) \<and>
   (accepting hst \<and> lookupSize name = Inr (w, h) \<longrightarrow>
      newCalls d (snd (applyPageSettings hst name bookType paperType inkType ms d)) =
        [SetPageWidth (inchesToPoints w), SetPageHeight (inchesToPoints h),
         SetBackgroundColor (backgroundOf paperType)] @ marginCalls ms @
        [SetProperty ''kdpFormatterSettings''
           \<lparr>s_sizeName = name, s_width = w, s_height = h, s_bookType = bookType,
            s_paperType = paperType, s_inkType = inkType, s_lastUpdated = now hst\<rparr>]) \<and>
   (accepting hst \<and> \<not> invalidDimensions w h \<longrightarrow>
      newCalls d (snd (applyCustomPageSize hst w h bookType paperType inkType ms d)) =
        [SetPageWidth (inchesToPoints w), SetPageHeight (inchesToPoints h),
         SetBackgroundColor (backgroundOf paperType)] @ marginCalls ms @
        [SetProperty ''kdpFormatterSettings''
           \<lparr>s_sizeName = ''Custom'', s_width = w, s_height = h, s_bookType = bookType,
            s_paperType = paperType, s_inkType = inkType, s_lastUpdated = now hst\<rparr>])"
proof (intro conjI impI)
  show "POINTS_PER_INCH = num 72"
    by (simp add: POINTS_PER_INCH_def)
  show "inchesToPoints v =
     Num (case toNumber v of
            NaN \<Rightarrow> NaN
          | PosInfinity \<Rightarrow> PosInfinity
          | NegInfinity \<Rightarrow> NegInfinity
          | Finite x \<Rightarrow> round64 (x * 72))"
    by (cases "toNumber v") (simp_all add: inchesToPoints_def js_times_def POINTS_PER_INCH_def)
  show "inchesToPoints (num 1) = num 72" "inchesToPoints (num 8.5) = num 612"
    "inchesToPoints (num (double 7.81)) = num (double 562.3199999999999)"
    by (simp_all add: inchesToPoints_num double_eval)
  show "inchesToPoints (num (double (10 ^ 308))) = Num PosInfinity"
    by (simp add: inchesToPoints_num double_eval)
next
  assume "accepting hst"
  then show "newCalls d (snd (applyMargins hst ms d)) = marginCalls ms"
    by (intro newCalls_append marginCalls_accepting)
next
  assume a: "accepting hst \<and> lookupSize name = Inr (w, h)"
  then show "newCalls d (snd (applyPageSettings hst name bookType paperType inkType ms d)) =
        [SetPageWidth (inchesToPoints w), SetPageHeight (inchesToPoints h),
         SetBackgroundColor (backgroundOf paperType)] @ marginCalls ms @
        [SetProperty ''kdpFormatterSettings''
           \<lparr>s_sizeName = name, s_width = w, s_height = h, s_bookType = bookType,
            s_paperType = paperType, s_inkType = inkType, s_lastUpdated = now hst\<rparr>]"
    by (intro newCalls_append)
       (simp add: applyPageSettings_accepting stored_fields marginCalls_accepting sized_fields)
next
  assume a: "accepting hst \<and> \<not> invalidDimensions w h"
  then show "newCalls d (snd (applyCustomPageSize hst w h bookType paperType inkType ms d)) =
        [SetPageWidth (inchesToPoints w), SetPageHeight (inchesToPoints h),
         SetBackgroundColor (backgroundOf paperType)] @ marginCalls ms @
        [SetProperty ''kdpFormatterSettings''
           \<lparr>s_sizeName = ''Custom'', s_width = w, s_height = h, s_bookType = bookType,
            s_paperType = paperType, s_inkType = inkType, s_lastUpdated = now hst\<rparr>]"
    by (intro newCalls_append)
       (simp add: applyCustomPageSize_accepting_document stored_fields marginCalls_accepting
          sized_fields)
qed

lemma lookupSize_5_06: "lookupSize ''Paperback - 5.06 x 7.81'' =
    Inr (num (double 5.06), num (double 7.81))"
  by (simp add: lookupSize_def getProperty_def KDP_SIZES_def paperback_def)

theorem points_conversion_example:
  "inchesToPoints (num 1) = num 72 \<and> inchesToPoints (num 8.5) = num 612 \<and>
   inchesToPoints Undefined = Num NaN \<and>
   inchesToPoints (Num NegInfinity) = Num NegInfinity \<and>
   newCalls letterPage
     (snd (applyPageSettings acceptAll ''Paperback - 5.06 x 7.81'' ''paperback'' ''cream''
             ''black'' (namedMargins ''mirrored'') letterPage)) =
     [SetPageWidth (num (double 364.32)), SetPageHeight (num (double 562.3199999999999)),
      SetBackgroundColor ''#F8F3E6'',
      SetMarginTop (num 72), SetMarginBottom (num 72), SetMarginLeft (num 90),
      SetMarginRight (num 54),
      SetProperty ''kdpFormatterSettings''
        \<lparr>s_sizeName = ''Paperback - 5.06 x 7.81'', s_width = num (double 5.06),
         s_height = num (double 7.81), s_bookType = ''paperback'', s_paperType = ''cream'',
         s_inkType = ''black'', s_lastUpdated = ''2025-03-01T00:00:00.000Z''\<rparr>] \<and>
   newCalls letterPage
     (snd (applyCustomPageSize acceptAll (num 8.5) (num 11) ''paperback'' ''white'' ''black''
             (customMargins 1 1 0.75 0.5) letterPage)) =
     [SetPageWidth (num 612), SetPageHeight (num 792), SetBackgroundColor ''#FFFFFF'',
      SetMarginTop (num 72), SetMarginBottom (num 72), SetMarginLeft (num 54),
      SetMarginRight (num 36),
      SetProperty ''kdpFormatterSettings''
        \<lparr>s_sizeName = ''Custom'', s_width = num 8.5, s_height = num 11,
         s_bookType = ''paperback'', s_paperType = ''white'', s_inkType = ''black'',
         s_lastUpdated = ''2025-03-01T00:00:00.000Z''\<rparr>] \<and>
   newCalls letterPage
     (snd (applyMargins acceptAll
             \<lparr>ms_type = None, ms_top = Undefined, ms_bottom = Num PosInfinity,
              ms_inside = Str ''1'', ms_outside = num 0.25\<rparr> letterPage)) =
     [SetMarginTop (Num NaN), SetMarginBottom (Num PosInfinity), SetMarginLeft (num 72),
      SetMarginRight (num 18)]"
proof -
  have v: "\<not> invalidDimensions (num 8.5) (num 11)"
    by (simp add: invalidDimensions_iff double_11_69)
  have one: "stringToNumber ''1'' = Finite 1"
    by (simp add: stringToNumber_def trimString_def isStrWhiteSpace_def
      strNumericLiteral_def unsignedDecimal_def isDigit_def digitOf_def exponentPart_def
      digitsValue_def pow10_def double_eval)
  note pc = points_conversion [where hst = acceptAll and d = letterPage]
  note nums = pc [THEN conjunct2, THEN conjunct2]
  note margins = nums [THEN conjunct2, THEN conjunct2, THEN conjunct2, THEN conjunct2]
  note preset = margins [THEN conjunct2, THEN conjunct1, rule_format]
  note custom = margins [THEN conjunct2, THEN conjunct2, rule_format]
  have e1: "inchesToPoints (num 1) = num 72"
    by (rule nums [THEN conjunct1])
  have e2: "inchesToPoints (num 8.5) = num 612"
    by (rule nums [THEN conjunct2, THEN conjunct1])
  have e3: "inchesToPoints Undefined = Num NaN"
    "inchesToPoints (Num NegInfinity) = Num NegInfinity"
    "inchesToPoints (Num PosInfinity) = Num PosInfinity"
    "inchesToPoints (Str ''1'') = num 72"
    using pc [where v = Undefined, THEN conjunct2, THEN conjunct1]
      pc [where v = "Num NegInfinity", THEN conjunct2, THEN conjunct1]
      pc [where v = "Num PosInfinity", THEN conjunct2, THEN conjunct1]
      pc [where v = "Str ''1''", THEN conjunct2, THEN conjunct1] e1
    by (simp_all add: one inchesToPoints_num)
  have e4: "inchesToPoints (num (double 5.06)) = num (double 364.32)"
    "inchesToPoints (num (double 7.81)) = num (double 562.3199999999999)"
    "inchesToPoints (num 11) = num 792" "inchesToPoints (num 0.75) = num 54"
    "inchesToPoints (num 0.5) = num 36" "inchesToPoints (num 1.25) = num 90"
    "inchesToPoints (num 0.25) = num 18"
    by (simp_all add: inchesToPoints_num double_eval)
  have m1: "marginCalls (namedMargins ''mirrored'') =
      [SetMarginTop (num 72), SetMarginBottom (num 72), SetMarginLeft (num 90),
       SetMarginRight (num 54)]"
    using e1 e4 by (simp add: marginCalls_def marginInches_def namedMargins_def)
  have m2: "marginCalls (customMargins 1 1 0.75 0.5) =
      [SetMarginTop (num 72), SetMarginBottom (num 72), SetMarginLeft (num 54),
       SetMarginRight (num 36)]"
    using e1 e4 by (simp add: marginCalls_def marginInches_def customMargins_def)
  have m3: "marginCalls \<lparr>ms_type = None, ms_top = Undefined, ms_bottom = Num PosInfinity,
              ms_inside = Str ''1'', ms_outside = num 0.25\<rparr> =
      [SetMarginTop (Num NaN), SetMarginBottom (Num PosInfinity), SetMarginLeft (num 72),
       SetMarginRight (num 18)]"
    using e3 e4 by (simp add: marginCalls_def marginInches_def)
  have c1: "newCalls letterPage
     (snd (applyPageSettings acceptAll ''Paperback - 5.06 x 7.81'' ''paperback'' ''cream''
             ''black'' (namedMargins ''mirrored'') letterPage)) =
     [SetPageWidth (num (double 364.32)), SetPageHeight (num (double 562.3199999999999)),
      SetBackgroundColor ''#F8F3E6'',
      SetMarginTop (num 72), SetMarginBottom (num 72), SetMarginLeft (num 90),
      SetMarginRight (num 54),
      SetProperty ''kdpFormatterSettings''
        \<lparr>s_sizeName = ''Paperback - 5.06 x 7.81'', s_width = num (double 5.06),
         s_height = num (double 7.81), s_bookType = ''paperback'', s_paperType = ''cream'',
         s_inkType = ''black'', s_lastUpdated = ''2025-03-01T00:00:00.000Z''\<rparr>]"
    using preset [OF conjI [OF accepting_acceptAll lookupSize_5_06],
        of "''paperback''" "''cream''" "''black''" "namedMargins ''mirrored''"]
    unfolding e4 m1 now_acceptAll by (simp add: backgroundOf_def COLOR_CREAM_def)
  have c2: "newCalls letterPage
     (snd (applyCustomPageSize acceptAll (num 8.5) (num 11) ''paperback'' ''white'' ''black''
             (customMargins 1 1 0.75 0.5) letterPage)) =
     [SetPageWidth (num 612), SetPageHeight (num 792), SetBackgroundColor ''#FFFFFF'',
      SetMarginTop (num 72), SetMarginBottom (num 72), SetMarginLeft (num 54),
      SetMarginRight (num 36),
      SetProperty ''kdpFormatterSettings''
        \<lparr>s_sizeName = ''Custom'', s_width = num 8.5, s_height = num 11,
         s_bookType = ''paperback'', s_paperType = ''white'', s_inkType = ''black'',
         s_lastUpdated = ''2025-03-01T00:00:00.000Z''\<rparr>]"
    using custom [OF conjI [OF accepting_acceptAll v],
        of "''paperback''" "''white''" "''black''" "customMargins 1 1 0.75 0.5"]
    unfolding e2 e4 m2 now_acceptAll by (simp add: backgroundOf_def COLOR_WHITE_def)
  have c3: "newCalls letterPage
     (snd (applyMargins acceptAll
             \<lparr>ms_type = None, ms_top = Undefined, ms_bottom = Num PosInfinity,
              ms_inside = Str ''1'', ms_outside = num 0.25\<rparr> letterPage)) =
     [SetMarginTop (Num NaN), SetMarginBottom (Num PosInfinity), SetMarginLeft (num 72),
      SetMarginRight (num 18)]"
    using margins [THEN conjunct1, rule_format, OF accepting_acceptAll] by (simp only: m3)
  show ?thesis
    using e1 e2 e3(1,2) c1 c2 c3 by blast
qed

subsection \<open>A failed validation changes nothing\<close>

text \<open>
  Claim C8. When the validation of \<open>applyCustomPageSize\<close> fails, the function makes no
  call on the host and returns the document as it was: page width, page height,
  background colour and the four margins are unchanged.
\<close>
theorem invalid_dimensions_no_mutation:
  assumes "invalidDimensions w h"
  shows "snd (applyCustomPageSize hst w h bookType paperType inkType ms d) = d \<and>
         newCalls d (snd (applyCustomPageSize hst w h bookType paperType inkType ms d)) = [] \<and>
         pageWidth (snd (applyCustomPageSize hst w h bookType paperType inkType ms d)) =
           pageWidth d \<and>
         pageHeight (snd (applyCustomPageSize hst w h bookType paperType inkType ms d)) =
           pageHeight d \<and>
         backgroundColor (snd (applyCustomPageSize hst w h bookType paperType inkType ms d)) =
           backgroundColor d \<and>
         marginTop (snd (applyCustomPageSize hst w h bookType paperType inkType ms d)) =
           marginTop d \<and>
         marginBottom (snd (applyCustomPageSize hst w h bookType paperType inkType ms d)) =
           marginBottom d \<and>
         marginLeft (snd (applyCustomPageSize hst w h bookType paperType inkType ms d)) =
           marginLeft d \<and>
         marginRight (snd (applyCustomPageSize hst w h bookType paperType inkType ms d)) =
           marginRight d"
  by (simp add: applyCustomPageSize_invalid [OF assms] newCalls_def)

theorem invalid_dimensions_example:
  "invalidDimensions (num 3) Undefined \<and>
   snd (applyCustomPageSize acceptAll (num 3) Undefined ''paperback'' ''cream'' ''black''
          (customMargins 2 2 2 2) letterPage) = letterPage \<and>
   newCalls letterPage
     (snd (applyCustomPageSize acceptAll (num 3) Undefined ''paperback'' ''cream'' ''black''
          (customMargins 2 2 2 2) letterPage)) = []"
proof -
  have i: "invalidDimensions (num 3) Undefined"
    by (simp add: invalidDimensions_def)
  show ?thesis
    using invalid_dimensions_no_mutation [OF i, of acceptAll "''paperback''" "''cream''"
        "''black''" "customMargins 2 2 2 2" letterPage] i
    by (simp add: newCalls_def)
qed

subsection \<open>The entry Custom of the common sizes\<close>

text \<open>
  Claim C9. \<open>COMMON_SIZES\<close> has the key \<open>Custom\<close> with width 0 and height 0, and
  \<open>KDP_SIZES\<close> has not. So the lookup of \<open>applyPageSettings\<close> for \<open>Custom\<close> succeeds
  with 0 by 0 inches, dimensions that the validation of \<open>applyCustomPageSize\<close> rejects,
  and the function goes on: whatever the host, its first call is \<open>setPageWidth(0)\<close>; if
  the host accepts that, the next is \<open>setPageHeight(0)\<close>; and on a host that accepts
  every call the page ends 0 by 0 points and the success message is returned.
\<close>
theorem custom_entry_skips_validation:
  "map_of KDP_SIZES ''Custom'' = None \<and>
   map_of COMMON_SIZES ''Custom'' = Some (common 0 0) \<and>
   lookupSize ''Custom'' = Inr (num 0, num 0) \<and>
   invalidDimensions (num 0) (num 0) \<and>
   take 1 (newCalls d (snd (applyPageSettings hst ''Custom'' bookType paperType inkType ms d)))
     = [SetPageWidth (num 0)] \<and>
   (throws hst (SetPageWidth (num 0)) = None \<longrightarrow>
      take 2 (newCalls d
                (snd (applyPageSettings hst ''Custom'' bookType paperType inkType ms d)))
        = [SetPageWidth (num 0), SetPageHeight (num 0)]) \<and>
   (accepting hst \<longrightarrow>
      pageWidth (snd (applyPageSettings hst ''Custom'' bookType paperType inkType ms d))
        = num 0 \<and>
      pageHeight (snd (applyPageSettings hst ''Custom'' bookType paperType inkType ms d))
        = num 0 \<and>
      fst (applyPageSettings hst ''Custom'' bookType paperType inkType ms d)
        = PageSizeSet ''Custom'' (num 0) (num 0) bookType paperType inkType)"
proof (intro conjI impI)
  show "map_of KDP_SIZES ''Custom'' = None"
    by (simp add: KDP_SIZES_def)
  show "map_of COMMON_SIZES ''Custom'' = Some (common 0 0)"
    by (simp add: COMMON_SIZES_def)
  show "lookupSize ''Custom'' = Inr (num 0, num 0)"
    by (rule lookupSize_Custom)
  show "invalidDimensions (num 0) (num 0)"
    by (simp add: invalidDimensions_def)
  have z: "inchesToPoints (num 0) = num 0"
    by (simp add: inchesToPoints_num double_eval)
  note c = applyPageSettings_calls [OF lookupSize_Custom]
  show "take 1 (newCalls d
          (snd (applyPageSettings hst ''Custom'' bookType paperType inkType ms d)))
        = [SetPageWidth (num 0)]"
  proof -
    have "prefix (calls d @ [SetPageWidth (inchesToPoints (num 0))])
            (calls (snd (pageStatements hst ''Custom'' (num 0) (num 0) bookType paperType
                           inkType ms d)))"
      by (rule pageStatements_first_call)
    from newCalls_prefix [OF this] show ?thesis
      by (simp add: c z numeral_2_eq_2 newCalls_def)
  qed
  show "take 2 (newCalls d
          (snd (applyPageSettings hst ''Custom'' bookType paperType inkType ms d)))
        = [SetPageWidth (num 0), SetPageHeight (num 0)]"
    if "throws hst (SetPageWidth (num 0)) = None"
  proof -
    have "prefix (calls d @ [SetPageWidth (inchesToPoints (num 0)),
                             SetPageHeight (inchesToPoints (num 0))])
            (calls (snd (pageStatements hst ''Custom'' (num 0) (num 0) bookType paperType
                           inkType ms d)))"
      using that by (intro pageStatements_second_call) (simp add: z)
    from newCalls_prefix [OF this] show ?thesis
      by (simp add: c z numeral_2_eq_2 newCalls_def)
  qed
  show "pageWidth (snd (applyPageSettings hst ''Custom'' bookType paperType inkType ms d))
        = num 0" if "accepting hst"
    by (simp add: applyPageSettings_accepting [OF that lookupSize_Custom] stored_fields
        applyMargins_frame sized_fields z)
  show "pageHeight (snd (applyPageSettings hst ''Custom'' bookType paperType inkType ms d))
        = num 0" if "accepting hst"
    by (simp add: applyPageSettings_accepting [OF that lookupSize_Custom] stored_fields
        applyMargins_frame sized_fields z)
  show "fst (applyPageSettings hst ''Custom'' bookType paperType inkType ms d)
        = PageSizeSet ''Custom'' (num 0) (num 0) bookType paperType inkType"
    if "accepting hst"
    by (simp add: applyPageSettings_accepting [OF that lookupSize_Custom] stripBookPrefix_def)
qed

theorem custom_entry_example:
  "take 2 (newCalls letterPage
            (snd (applyPageSettings refuseNaNWidth ''Custom'' ''paperback'' ''white''
                    ''black'' (namedMargins ''default'') letterPage)))
     = [SetPageWidth (num 0), SetPageHeight (num 0)] \<and>
   pageWidth (snd (applyPageSettings acceptAll ''Custom'' ''paperback'' ''white'' ''black''
                     (namedMargins ''default'') letterPage)) = num 0 \<and>
   pageHeight (snd (applyPageSettings acceptAll ''Custom'' ''paperback'' ''white'' ''black''
                      (namedMargins ''default'') letterPage)) = num 0 \<and>
   fst (applyPageSettings acceptAll ''Custom'' ''paperback'' ''white'' ''black''
          (namedMargins ''default'') letterPage)
     = PageSizeSet ''Custom'' (num 0) (num 0) ''paperback'' ''white'' ''black''"
  using custom_entry_skips_validation [of letterPage refuseNaNWidth "''paperback''"
      "''white''" "''black''" "namedMargins ''default''"]
    custom_entry_skips_validation [of letterPage acceptAll "''paperback''"
      "''white''" "''black''" "namedMargins ''default''"]
  by (simp add: accepting_acceptAll refuseNaNWidth_def)

subsection \<open>A margin variant that is not known\<close>

text \<open>
  Claim C10. When \<open>marginSettings.type\<close> is set (truthy) and is none of \<open>default\<close>,
  \<open>narrow\<close>, \<open>wide\<close> and \<open>mirrored\<close>, \<open>applyMargins\<close> completes without a call on
  the host and leaves the whole document, its four margins included, as it was.
\<close>
theorem unknown_variant_no_margin_change:
  assumes "truthy_string (ms_type ms)"
    and "ms_type ms \<notin> {Some ''default'', Some ''narrow'', Some ''wide'', Some ''mirrored''}"
  shows "applyMargins hst ms d = (None, d)"
  using assms by (simp add: applyMargins_def)

theorem unknown_variant_example:
  "truthy_string (ms_type (namedMargins ''custom'')) \<and>
   applyMargins acceptAll (namedMargins ''custom'') letterPage = (None, letterPage) \<and>
   applyMargins refuseNaNWidth (namedMargins ''Mirrored'') letterPage = (None, letterPage)"
  using unknown_variant_no_margin_change [of "namedMargins ''custom''" acceptAll letterPage]
    unknown_variant_no_margin_change [of "namedMargins ''Mirrored''" refuseNaNWidth letterPage]
  by (simp add: namedMargins_type)

end
